theory Spec2Isabelle
  imports Complex_Main "HOL-Library.Log_Nat"
begin

section \<open>Response merge policy (utils/responseUtils: mergeResponses)\<close>

text \<open>
  JavaScript strings are modelled as \<^typ>\<open>string\<close>; \<open>s.length\<close> is \<^term>\<open>length s\<close> and a
  string is falsy exactly when it is empty. The comparison \<open>a.length > b.length * 1.5\<close> is
  between an integer and a multiple of one half, which double precision represents
  exactly, so it is modelled over the reals.
\<close>

definition longer_by_half :: "nat \<Rightarrow> nat \<Rightarrow> bool" where
  "longer_by_half la lb = (real la > real lb * 1.5)"

definition noResponseText :: string where
  "noResponseText = ''No response from either model.''"

definition deepseekOmittedNote :: string where
  "deepseekOmittedNote = ''\<newline>\<newline>(DeepSeek provided a shorter response that was not included)''"

definition openaiOmittedNote :: string where
  "openaiOmittedNote = ''\<newline>\<newline>(OpenAI provided a shorter response that was not included)''"

definition combinedResponse :: "string \<Rightarrow> string \<Rightarrow> string" where
  "combinedResponse openaiResponse deepseekResponse =
     ''\<newline>## OpenAI Response\<newline>'' @ openaiResponse @
     ''\<newline>\<newline>## DeepSeek Response\<newline>'' @ deepseekResponse @
     ''\<newline>\<newline>## Combined Analysis\<newline>Both models have provided insights on this topic. Consider the strengths of each approach when forming your conclusion.\<newline>''"

definition mergeResponses :: "string \<Rightarrow> string \<Rightarrow> string" where
  "mergeResponses openaiResponse deepseekResponse =
     (if openaiResponse = [] \<and> deepseekResponse = [] then noResponseText
      else if openaiResponse = [] then deepseekResponse
      else if deepseekResponse = [] then openaiResponse
      else if longer_by_half (length openaiResponse) (length deepseekResponse)
        then openaiResponse @ deepseekOmittedNote
      else if longer_by_half (length deepseekResponse) (length openaiResponse)
        then deepseekResponse @ openaiOmittedNote
      else combinedResponse openaiResponse deepseekResponse)"


section \<open>Numbers of the runtime\<close>

text \<open>
  A JavaScript number is a double: a rational with a significand of 53 bits, an infinity,
  or NaN (the sign of zero is not tracked). \<open>exponentOf x\<close> is the integer \<open>e\<close> with
  \<open>2^e \<le> |x| < 2^(e+1)\<close>. \<open>roundToDouble\<close> rounds a rational to the nearest number with
  a significand of 53 bits, ties to the even significand, with the spacing of subnormal
  numbers below \<open>2^-1022\<close>; \<open>fromExact\<close> is the result of an arithmetic operation whose
  exact value is given, which overflows to an infinity from \<open>2^1024\<close> on. Division and
  multiplication are the operators \<open>/\<close> and \<open>*\<close>.
\<close>

definition exponentOf :: "rat \<Rightarrow> int" where
  "exponentOf x =
     (let (p, q) = quotient_of \<bar>x\<bar>; d = bitlen p - bitlen q
      in if 2 powi d \<le> \<bar>x\<bar> then d else d - 1)"

definition roundHalfEven :: "rat \<Rightarrow> int" where
  "roundHalfEven m =
     (let f = \<lfloor>m\<rfloor>; r = m - of_int f
      in if r < 1 / 2 then f else if 1 / 2 < r then f + 1 else if even f then f else f + 1)"

definition roundToDouble :: "rat \<Rightarrow> rat" where
  "roundToDouble x =
     (if x = 0 then 0
      else let e = max (exponentOf x) (- 1022) - 52
           in of_int (roundHalfEven (x / 2 powi e)) * 2 powi e)"

datatype double = Finite rat | PlusInfinity | MinusInfinity | NaN

definition fromExact :: "rat \<Rightarrow> double" where
  "fromExact x =
     (let y = roundToDouble x
      in if 2 ^ 1024 \<le> y then PlusInfinity
         else if y \<le> - (2 ^ 1024) then MinusInfinity
         else Finite y)"

fun jsDivide :: "double \<Rightarrow> double \<Rightarrow> double" where
  "jsDivide (Finite a) (Finite b) =
     (if b = 0 then (if a = 0 then NaN else if 0 < a then PlusInfinity else MinusInfinity)
      else fromExact (a / b))"
| "jsDivide NaN _ = NaN"
| "jsDivide _ NaN = NaN"
| "jsDivide (Finite a) _ = Finite 0"
| "jsDivide PlusInfinity (Finite b) = (if 0 \<le> b then PlusInfinity else MinusInfinity)"
| "jsDivide MinusInfinity (Finite b) = (if 0 \<le> b then MinusInfinity else PlusInfinity)"
| "jsDivide _ _ = NaN"

fun jsMultiply :: "double \<Rightarrow> double \<Rightarrow> double" where
  "jsMultiply (Finite a) (Finite b) = fromExact (a * b)"
| "jsMultiply NaN _ = NaN"
| "jsMultiply _ NaN = NaN"
| "jsMultiply PlusInfinity (Finite b) =
     (if b = 0 then NaN else if 0 < b then PlusInfinity else MinusInfinity)"
| "jsMultiply MinusInfinity (Finite b) =
     (if b = 0 then NaN else if 0 < b then MinusInfinity else PlusInfinity)"
| "jsMultiply (Finite a) PlusInfinity =
     (if a = 0 then NaN else if 0 < a then PlusInfinity else MinusInfinity)"
| "jsMultiply (Finite a) MinusInfinity =
     (if a = 0 then NaN else if 0 < a then MinusInfinity else PlusInfinity)"
| "jsMultiply PlusInfinity PlusInfinity = PlusInfinity"
| "jsMultiply MinusInfinity MinusInfinity = PlusInfinity"
| "jsMultiply _ _ = MinusInfinity"

section \<open>Request statistics (lib/store: requestStore)\<close>

text \<open>
  The three counters are JavaScript numbers that only ever hold counts; they are modelled
  as natural numbers (a count is held exactly up to \<open>2^53\<close>). The success rate is computed
  in double precision, as \<open>(successfulRequests / totalRequests) * 100\<close>.
\<close>

record requestStore =
  totalRequests :: nat
  successfulRequests :: nat
  failedRequests :: nat

record stats =
  total :: nat
  successful :: nat
  failed :: nat
  successRate :: double

definition initialStore :: requestStore where
  "initialStore = \<lparr>totalRequests = 0, successfulRequests = 0, failedRequests = 0\<rparr>"

definition trackRequest :: "bool \<Rightarrow> requestStore \<Rightarrow> requestStore" where
  "trackRequest success st =
     (let st1 = st\<lparr>totalRequests := totalRequests st + 1\<rparr>
      in if success then st1\<lparr>successfulRequests := successfulRequests st1 + 1\<rparr>
         else st1\<lparr>failedRequests := failedRequests st1 + 1\<rparr>)"

definition getStats :: "requestStore \<Rightarrow> stats" where
  "getStats st =
     \<lparr>total = totalRequests st,
      successful = successfulRequests st,
      failed = failedRequests st,
      successRate = (if totalRequests st > 0
                     then jsMultiply (jsDivide (Finite (of_nat (successfulRequests st)))
                                               (Finite (of_nat (totalRequests st))))
                                     (Finite 100)
                     else Finite 0)\<rparr>"

definition resetStats :: "requestStore \<Rightarrow> requestStore" where
  "resetStats st = st\<lparr>totalRequests := 0, successfulRequests := 0, failedRequests := 0\<rparr>"

datatype store_call = TrackRequest bool | ResetStats

fun store_step :: "requestStore \<Rightarrow> store_call \<Rightarrow> requestStore" where
  "store_step st (TrackRequest success) = trackRequest success st"
| "store_step st ResetStats = resetStats st"

definition store_run :: "store_call list \<Rightarrow> requestStore" where
  "store_run calls = foldl store_step initialStore calls"

definition counters_consistent :: "requestStore \<Rightarrow> bool" where
  "counters_consistent st = (totalRequests st = successfulRequests st + failedRequests st)"

section \<open>Retry with exponential backoff (the backOff call of both provider clients)\<close>

text \<open>
  A failed upstream call is classified by what went wrong. \<open>SomethingWentWrong\<close> is the
  error the retry loop itself throws when it is left without a result.
\<close>

datatype failure = Timeout | ConnectionReset | HttpStatus nat | SomethingWentWrong

fun transient_failure :: "failure \<Rightarrow> bool" where
  "transient_failure Timeout = True"
| "transient_failure ConnectionReset = True"
| "transient_failure (HttpStatus code) = (500 \<le> code \<and> code < 600)"
| "transient_failure SomethingWentWrong = False"

fun validation_failure :: "failure \<Rightarrow> bool" where
  "validation_failure (HttpStatus code) = (400 \<le> code \<and> code < 500 \<and> code \<noteq> 429)"
| "validation_failure _ = False"

record backoff_options =
  numOfAttempts :: nat
  startingDelay :: nat
  timeMultiple :: nat
  retry :: "failure \<Rightarrow> nat \<Rightarrow> bool"

record 'a backoff_run =
  outcome :: "failure + 'a"
  attempts :: nat
  slept :: "nat list"

text \<open>
  The loop of the exponential-backoff package, with the options the clients leave at their
  defaults (no delay before the first attempt, no jitter, no maximal delay): while the
  attempt limit is not reached, sleep, call the request and return its result; on an error
  count the attempt, ask \<open>retry\<close>, and rethrow when it declines or the limit is reached.
  \<open>request k\<close> is the outcome of the call of the request function made as attempt number
  \<open>k\<close> (from 0); \<open>attempts\<close> counts the calls made and \<open>slept\<close> lists the delays in
  milliseconds.
\<close>

function execute :: "backoff_options \<Rightarrow> (nat \<Rightarrow> failure + 'a) \<Rightarrow> nat \<Rightarrow> nat list \<Rightarrow> 'a backoff_run" where
  "execute opts request attemptNumber sleeps =
     (if attemptNumber \<ge> numOfAttempts opts
      then \<lparr>outcome = Inl SomethingWentWrong, attempts = attemptNumber, slept = sleeps\<rparr>
      else
        let sleeps' = (if attemptNumber = 0 then sleeps
                       else sleeps @ [startingDelay opts * timeMultiple opts ^ (attemptNumber - 1)])
        in case request attemptNumber of
             Inr v \<Rightarrow> \<lparr>outcome = Inr v, attempts = attemptNumber + 1, slept = sleeps'\<rparr>
           | Inl e \<Rightarrow>
               if \<not> retry opts e (attemptNumber + 1) \<or> attemptNumber + 1 \<ge> numOfAttempts opts
               then \<lparr>outcome = Inl e, attempts = attemptNumber + 1, slept = sleeps'\<rparr>
               else execute opts request (attemptNumber + 1) sleeps')"
  by pat_completeness auto
termination
  by (relation "measure (\<lambda>(opts, request, attemptNumber, sleeps). numOfAttempts opts - attemptNumber)") auto

definition sanitize :: "backoff_options \<Rightarrow> backoff_options" where
  "sanitize opts = (if numOfAttempts opts < 1 then opts\<lparr>numOfAttempts := 1\<rparr> else opts)"

definition backOff :: "(nat \<Rightarrow> failure + 'a) \<Rightarrow> backoff_options \<Rightarrow> 'a backoff_run" where
  "backOff request opts = execute (sanitize opts) request 0 []"

text \<open>The options both clients pass: three attempts, one second, doubling, retry always.\<close>

definition clientBackoffOptions :: backoff_options where
  "clientBackoffOptions =
     \<lparr>numOfAttempts = 3, startingDelay = 1000, timeMultiple = 2, retry = (\<lambda>e attemptNumber. True)\<rparr>"

text \<open>
  The OpenAI client is built with \<open>new OpenAI({ apiKey })\<close>, so the SDK keeps its default
  of two retries: one call of \<open>chat.completions.create\<close> sends an HTTP request and, while
  retries remain, sends it again after a connection error, a timeout, or an answer with
  status 408, 409, 429 or 500 and above; any other answer ends the call. \<open>http i\<close> is the
  outcome of the HTTP request sent as number \<open>i\<close> (from 0) of the call; the result is the
  outcome of the call with the number of requests sent. (The pauses the SDK makes between
  its requests, and the header by which a server can override the decision, are left out.)
\<close>

fun sdkShouldRetry :: "failure \<Rightarrow> bool" where
  "sdkShouldRetry Timeout = True"
| "sdkShouldRetry ConnectionReset = True"
| "sdkShouldRetry (HttpStatus code) = (code = 408 \<or> code = 409 \<or> code = 429 \<or> 500 \<le> code)"
| "sdkShouldRetry SomethingWentWrong = False"

fun makeRequest :: "(nat \<Rightarrow> failure + 'a) \<Rightarrow> nat \<Rightarrow> nat \<Rightarrow> (failure + 'a) \<times> nat" where
  "makeRequest http sent 0 = (http sent, sent + 1)"
| "makeRequest http sent (Suc retriesRemaining) =
     (case http sent of
        Inr v \<Rightarrow> (Inr v, sent + 1)
      | Inl e \<Rightarrow>
          if sdkShouldRetry e then makeRequest http (sent + 1) retriesRemaining
          else (Inl e, sent + 1))"

definition maxRetries :: nat where "maxRetries = 2"

definition create :: "(nat \<Rightarrow> failure + 'a) \<Rightarrow> (failure + 'a) \<times> nat" where
  "create http = makeRequest http 0 maxRetries"

section \<open>Values of the runtime\<close>

text \<open>
  Request bodies are parsed JSON. A property that is absent (\<open>undefined\<close>) is \<open>None\<close>.
  Numbers are modelled as rationals. The two conversions to text that the code relies on,
  \<open>JSON.stringify\<close> and the conversion of a number inside a template literal, belong to
  the language runtime and are taken as parameters.
\<close>

datatype json =
    JNull
  | JBool bool
  | JNumber rat
  | JString string
  | JArray "json list"
  | JObject "(string \<times> json) list"

fun truthy :: "json \<Rightarrow> bool" where
  "truthy JNull = False"
| "truthy (JBool b) = b"
| "truthy (JNumber n) = (n \<noteq> 0)"
| "truthy (JString s) = (s \<noteq> [])"
| "truthy (JArray xs) = True"
| "truthy (JObject kvs) = True"

record runtime =
  stringify :: "json \<Rightarrow> string"
  numberToString :: "rat \<Rightarrow> string"


text \<open>\<open>x || d\<close> for an optional number, an optional string and an optional JSON value.\<close>

fun orNumber :: "rat option \<Rightarrow> rat \<Rightarrow> rat" where
  "orNumber None d = d"
| "orNumber (Some n) d = (if n \<noteq> 0 then n else d)"

fun orString :: "string option \<Rightarrow> string option \<Rightarrow> string option" where
  "orString None d = d"
| "orString (Some s) d = (if s \<noteq> [] then Some s else d)"

fun orText :: "string option \<Rightarrow> string \<Rightarrow> string" where
  "orText None d = d"
| "orText (Some s) d = (if s \<noteq> [] then s else d)"

fun orJson :: "json option \<Rightarrow> json \<Rightarrow> json" where
  "orJson None d = d"
| "orJson (Some v) d = (if truthy v then v else d)"

text \<open>\<open>${x}\<close> for an optional number and an optional string.\<close>

fun numberText :: "runtime \<Rightarrow> rat option \<Rightarrow> string" where
  "numberText rt None = ''undefined''"
| "numberText rt (Some n) = numberToString rt n"


section \<open>Provider clients (services/openaiService, services/deepseekService)\<close>

record call_options =
  opt_temperature :: "rat option"
  opt_maxTokens :: "rat option"
  opt_functions :: "json option"
  opt_function_call :: "json option"
  opt_userId :: "string option"

definition noOptions :: call_options where
  "noOptions = \<lparr>opt_temperature = None, opt_maxTokens = None, opt_functions = None,
                  opt_function_call = None, opt_userId = None\<rparr>"

text \<open>The body of the HTTP request a client sends upstream.\<close>

record chat_request =
  req_model :: string
  req_messages :: "(string \<times> string) list"
  req_temperature :: rat
  req_max_tokens :: rat
  req_functions :: "json option"
  req_function_call :: "json option"

text \<open>
  What DeepSeek answers: the message of the first choice and the token count of the usage
  block (an answer is taken to have both).
\<close>

record deepseek_reply =
  reply_content :: "string option"
  reply_function_call :: "json option"
  reply_total_tokens :: nat

text \<open>
  The world outside the server: what a provider answers to an HTTP request (the content of
  the first choice, \<open>None\<close> when it is null) or how the request fails. \<open>deepseekApi w req k\<close>
  is the outcome of the request that attempt number \<open>k\<close> of the retry loop posts;
  \<open>openaiApi w req k i\<close> is the outcome of request number \<open>i\<close> of the call of \<open>create\<close>
  made as attempt number \<open>k\<close>.
\<close>

record world =
  runtime_of :: runtime
  openaiApi :: "chat_request \<Rightarrow> nat \<Rightarrow> nat \<Rightarrow> failure + string option"
  deepseekApi :: "chat_request \<Rightarrow> nat \<Rightarrow> failure + deepseek_reply"

datatype provider = OpenAI | DeepSeek

text \<open>
  Saving a conversation fails when a message has no content (the schema requires it, and
  an empty string does not count) or when the document is new and its session id is taken
  (the schema declares it unique).
\<close>

datatype save_failure = ContentRequired | DuplicateSessionId

datatype handler_error =
    OpenAIApiError failure
  | DeepSeekApiError failure
  | CacheFull
  | SaveFailed save_failure

record model_capability =
  cap_maxTokens :: nat
  supportsFunctions :: bool
  supportsVision :: bool
  supportsStreaming :: bool
  costPerToken :: rat

datatype DeepSeekModel =
    DeepseekV3 | DeepseekR1 | DeepseekCoderV2 | DeepseekVL
  | DeepseekV2 | DeepseekCoder | DeepseekMath | DeepseekLLM

fun modelName :: "DeepSeekModel \<Rightarrow> string" where
  "modelName DeepseekV3 = ''deepseek-v3''"
| "modelName DeepseekR1 = ''deepseek-r1''"
| "modelName DeepseekCoderV2 = ''deepseek-coder-v2''"
| "modelName DeepseekVL = ''deepseek-vl''"
| "modelName DeepseekV2 = ''deepseek-v2''"
| "modelName DeepseekCoder = ''deepseek-coder''"
| "modelName DeepseekMath = ''deepseek-math''"
| "modelName DeepseekLLM = ''deepseek-llm''"

fun MODEL_CAPABILITIES :: "DeepSeekModel \<Rightarrow> model_capability" where
  "MODEL_CAPABILITIES DeepseekV3 = \<lparr>cap_maxTokens = 8192, supportsFunctions = True,
     supportsVision = False, supportsStreaming = True, costPerToken = roundToDouble (5 / 10000)\<rparr>"
| "MODEL_CAPABILITIES DeepseekR1 = \<lparr>cap_maxTokens = 16384, supportsFunctions = True,
     supportsVision = False, supportsStreaming = True, costPerToken = roundToDouble (1 / 1000)\<rparr>"
| "MODEL_CAPABILITIES DeepseekCoderV2 = \<lparr>cap_maxTokens = 16384, supportsFunctions = True,
     supportsVision = False, supportsStreaming = True, costPerToken = roundToDouble (8 / 10000)\<rparr>"
| "MODEL_CAPABILITIES DeepseekVL = \<lparr>cap_maxTokens = 4096, supportsFunctions = False,
     supportsVision = True, supportsStreaming = True, costPerToken = roundToDouble (15 / 10000)\<rparr>"
| "MODEL_CAPABILITIES DeepseekV2 = \<lparr>cap_maxTokens = 4096, supportsFunctions = False,
     supportsVision = False, supportsStreaming = True, costPerToken = roundToDouble (3 / 10000)\<rparr>"
| "MODEL_CAPABILITIES DeepseekCoder = \<lparr>cap_maxTokens = 8192, supportsFunctions = True,
     supportsVision = False, supportsStreaming = True, costPerToken = roundToDouble (6 / 10000)\<rparr>"
| "MODEL_CAPABILITIES DeepseekMath = \<lparr>cap_maxTokens = 8192, supportsFunctions = False,
     supportsVision = False, supportsStreaming = True, costPerToken = roundToDouble (7 / 10000)\<rparr>"
| "MODEL_CAPABILITIES DeepseekLLM = \<lparr>cap_maxTokens = 4096, supportsFunctions = False,
     supportsVision = False, supportsStreaming = True, costPerToken = roundToDouble (2 / 10000)\<rparr>"

section \<open>Users, quota and the usage ledger (models/user, models/apiUsage)\<close>

text \<open>
  A \<open>Date\<close> is modelled by its local calendar fields; instants are compared field by field.
  \<open>newDate y m d\<close> is \<open>new Date(y, m, d)\<close> for a day of the month that exists: a month
  index of 12 or more rolls over into the following years.
\<close>

record date =
  getFullYear :: int
  getMonth :: nat
  getDate :: nat
  msOfDay :: nat

definition newDate :: "int \<Rightarrow> nat \<Rightarrow> nat \<Rightarrow> date" where
  "newDate y m d = \<lparr>getFullYear = y + int (m div 12), getMonth = m mod 12, getDate = d, msOfDay = 0\<rparr>"

definition date_less :: "date \<Rightarrow> date \<Rightarrow> bool" where
  "date_less a b =
     (getFullYear a < getFullYear b \<or>
      (getFullYear a = getFullYear b \<and>
       (getMonth a < getMonth b \<or>
        (getMonth a = getMonth b \<and>
         (getDate a < getDate b \<or>
          (getDate a = getDate b \<and> msOfDay a < msOfDay b))))))"

text \<open>
  Token counts and allowances are modelled as natural numbers. The cost of a call is the
  double \<open>(tokensUsed / 1000) * costPerToken\<close>, where \<open>costPerToken\<close> is the double
  that its decimal literal denotes.
\<close>

record usageQuota =
  monthly :: nat
  used :: nat
  resetDate :: date

record user =
  quota :: usageQuota
  defaultModel :: "string option"

record apiUsage =
  usage_userId :: string
  usage_endpoint :: string
  usage_model :: string
  tokensUsed :: nat
  cost :: double

section \<open>Response cache (lib/store: responseCache)\<close>

record ask_response =
  response :: string
  openaiResponse :: "string option"
  deepseekResponse :: "string option"
  modelUsed :: string
  processingTime :: nat
  cached :: bool

text \<open>
  \<open>responseCache\<close> is a node-cache instance with \<open>stdTTL: 300\<close> and \<open>maxKeys: 1000\<close>.
  The cache holds, for each key, the value and the instant (in milliseconds) after which
  it is expired, and counts its keys. \<open>get\<close> deletes an entry it finds expired and reports
  it absent; \<open>set\<close> throws when the key count has reached \<open>maxKeys\<close> and otherwise stores
  the value with the standard time to live.
\<close>

record 'v node_cache =
  cache_data :: "string \<rightharpoonup> 'v \<times> nat"
  cache_keys :: nat

definition stdTTL :: nat where "stdTTL = 300"

definition maxKeys :: nat where "maxKeys = 1000"

definition emptyCache :: "'v node_cache" where
  "emptyCache = \<lparr>cache_data = Map.empty, cache_keys = 0\<rparr>"

definition cache_get :: "'v node_cache \<Rightarrow> string \<Rightarrow> nat \<Rightarrow> 'v option \<times> 'v node_cache" where
  "cache_get c key now =
     (case cache_data c key of
        None \<Rightarrow> (None, c)
      | Some (v, t) \<Rightarrow>
          if t \<noteq> 0 \<and> t < now
          then (None, c\<lparr>cache_data := (cache_data c)(key := None), cache_keys := cache_keys c - 1\<rparr>)
          else (Some v, c))"

definition cache_set :: "'v node_cache \<Rightarrow> string \<Rightarrow> 'v \<Rightarrow> nat \<Rightarrow> 'v node_cache option" where
  "cache_set c key v now =
     (if cache_keys c \<ge> maxKeys then None
      else Some (c\<lparr>cache_data := (cache_data c)(key \<mapsto> (v, now + stdTTL * 1000)),
                   cache_keys := (case cache_data c key of None \<Rightarrow> cache_keys c + 1
                                  | Some old \<Rightarrow> cache_keys c)\<rparr>))"

section \<open>Server state\<close>

record conv_message =
  msg_content :: string
  msg_role :: string
  msg_modelUsed :: "string option"

text \<open>
  The database is modelled as reliable: looking a user up, creating a usage record and
  writing a document that passes the checks of its schema do not fail. The collection of
  conversations has one document for a session id, with the user it belongs to and its
  messages. \<open>providerCalls\<close> and \<open>upstreamRequests\<close> are not variables
  of the program: the first records every invocation of a provider client with the number
  of attempts its retry loop made and the delays the loop slept, the second the number of
  HTTP requests the invocation sent upstream, so that statements about which clients ran
  and what they sent can be written down.
\<close>

record server =
  responseCache :: "ask_response node_cache"
  requestStats :: requestStore
  apiUsageLog :: "apiUsage list"
  users :: "string \<rightharpoonup> user"
  conversations :: "string \<rightharpoonup> string \<times> conv_message list"
  providerCalls :: "(provider \<times> nat \<times> nat list) list"
  upstreamRequests :: "(provider \<times> nat) list"

definition trackUsage :: "string \<Rightarrow> DeepSeekModel \<Rightarrow> nat \<Rightarrow> string \<Rightarrow> server \<Rightarrow> server" where
  "trackUsage userId model tokens endpoint s =
     (let c = jsMultiply (jsDivide (Finite (of_nat tokens)) (Finite 1000))
                (Finite (costPerToken (MODEL_CAPABILITIES model)));
          s1 = s\<lparr>apiUsageLog := apiUsageLog s @
                   [\<lparr>usage_userId = userId, usage_endpoint = endpoint,
                     usage_model = modelName model, tokensUsed = tokens, cost = c\<rparr>]\<rparr>
      in case users s1 userId of
           None \<Rightarrow> s1
         | Some u \<Rightarrow>
             s1\<lparr>users := (users s1)(userId \<mapsto>
                   u\<lparr>quota := (quota u)\<lparr>used := used (quota u) + tokens\<rparr>\<rparr>)\<rparr>)"

fun prepareMessages :: "runtime \<Rightarrow> string \<Rightarrow> json option \<Rightarrow> (string \<times> string) list" where
  "prepareMessages rt prompt None = [(''user'', prompt)]"
| "prepareMessages rt prompt (Some context) =
     (if truthy context
      then [(''system'', ''Context: '' @ stringify rt context), (''user'', prompt)]
      else [(''user'', prompt)])"

fun textOrEmpty :: "string option \<Rightarrow> string" where
  "textOrEmpty None = []"
| "textOrEmpty (Some t) = t"

fun truthyOpt :: "json option \<Rightarrow> bool" where
  "truthyOpt None = False"
| "truthyOpt (Some v) = truthy v"

text \<open>The request bodies the two clients build, and the model the DeepSeek client picks.\<close>

definition openaiRequest :: "runtime \<Rightarrow> string \<Rightarrow> json option \<Rightarrow> call_options \<Rightarrow> chat_request" where
  "openaiRequest rt prompt context options =
     \<lparr>req_model = ''gpt-4o'',
      req_messages = prepareMessages rt prompt context,
      req_temperature = orNumber (opt_temperature options) (7 / 10),
      req_max_tokens = orNumber (opt_maxTokens options) 4000,
      req_functions = None, req_function_call = None\<rparr>"

definition deepseekModel :: "call_options \<Rightarrow> DeepSeekModel" where
  "deepseekModel options = (if truthyOpt (opt_functions options) then DeepseekR1 else DeepseekV3)"

definition deepseekRequest :: "runtime \<Rightarrow> string \<Rightarrow> json option \<Rightarrow> call_options \<Rightarrow> chat_request" where
  "deepseekRequest rt prompt context options =
     \<lparr>req_model = modelName (deepseekModel options),
      req_messages = prepareMessages rt prompt context,
      req_temperature = orNumber (opt_temperature options) (7 / 10),
      req_max_tokens = orNumber (opt_maxTokens options)
                         (of_nat (cap_maxTokens (MODEL_CAPABILITIES (deepseekModel options)))),
      req_functions = (if truthyOpt (opt_functions options) then opt_functions options else None),
      req_function_call = (if truthyOpt (opt_functions options)
                           then Some (orJson (opt_function_call options) (JString ''auto''))
                           else None)\<rparr>"

definition getOpenAIResponse ::
  "world \<Rightarrow> string \<Rightarrow> json option \<Rightarrow> call_options \<Rightarrow> server \<Rightarrow> (handler_error + string) \<times> server" where
  "getOpenAIResponse w prompt context options s =
     (let call = (\<lambda>k. create (openaiApi w (openaiRequest (runtime_of w) prompt context options) k));
          run = backOff (\<lambda>k. fst (call k)) clientBackoffOptions;
          s1 = s\<lparr>providerCalls := providerCalls s @ [(OpenAI, attempts run, slept run)],
                  upstreamRequests := upstreamRequests s @
                    [(OpenAI, sum_list (map (\<lambda>k. snd (call k)) [0..<attempts run]))]\<rparr>
      in case outcome run of
           Inr content \<Rightarrow> (Inr (textOrEmpty content), s1)
         | Inl e \<Rightarrow> (Inl (OpenAIApiError e), s1))"

definition getDeepSeekResponse ::
  "world \<Rightarrow> string \<Rightarrow> json option \<Rightarrow> call_options \<Rightarrow> server \<Rightarrow> (handler_error + string) \<times> server" where
  "getDeepSeekResponse w prompt context options s =
     (let run = backOff (deepseekApi w (deepseekRequest (runtime_of w) prompt context options))
                  clientBackoffOptions;
          s1 = s\<lparr>providerCalls := providerCalls s @ [(DeepSeek, attempts run, slept run)],
                  upstreamRequests := upstreamRequests s @ [(DeepSeek, attempts run)]\<rparr>
      in case outcome run of
           Inl e \<Rightarrow> (Inl (DeepSeekApiError e), s1)
         | Inr reply \<Rightarrow>
             (let s2 = (case opt_userId options of
                          None \<Rightarrow> s1
                        | Some userId \<Rightarrow>
                            trackUsage userId (deepseekModel options) (reply_total_tokens reply)
                              ''chat/completions'' s1)
              in case reply_function_call reply of
                   None \<Rightarrow> (Inr (textOrEmpty (reply_content reply)), s2)
                 | Some function_call \<Rightarrow>
                     if truthy function_call
                     then (Inr (stringify (runtime_of w) function_call), s2)
                     else (Inr (textOrEmpty (reply_content reply)), s2)))"

section \<open>The one-shot route (routes/ask: POST /)\<close>

record ask_body =
  body_prompt :: string
  body_context :: "json option"
  body_modelPreference :: "string option"
  body_temperature :: "rat option"
  body_maxTokens :: "rat option"

text \<open>The key of routes/ask, and the key of the authenticated chat route (POST /chat).\<close>

definition askCacheKey :: "runtime \<Rightarrow> ask_body \<Rightarrow> string" where
  "askCacheKey rt body =
     body_prompt body @ ''-'' @ stringify rt (orJson (body_context body) (JObject [])) @ ''-'' @
     numberText rt (body_temperature body) @ ''-'' @ numberText rt (body_maxTokens body)"



text \<open>
  \<open>Promise.all\<close> of the two client calls: both calls run; the result is the pair of values
  when both succeed and otherwise a rejection (the one of the call that rejects first; the
  model takes the first call's when both reject).
\<close>

fun promiseAll :: "handler_error + 'a \<Rightarrow> handler_error + 'b \<Rightarrow> handler_error + 'a \<times> 'b" where
  "promiseAll (Inr a) (Inr b) = Inr (a, b)"
| "promiseAll (Inl e) _ = Inl e"
| "promiseAll (Inr a) (Inl e) = Inl e"

text \<open>
  The branch on \<open>modelPreference\<close>. \<open>now\<close> is the instant the handler starts at and
  \<open>later\<close> the instant the provider calls have completed at, both in milliseconds.
\<close>

definition askDispatch ::
  "world \<Rightarrow> ask_body \<Rightarrow> call_options \<Rightarrow> nat \<Rightarrow> nat \<Rightarrow> server \<Rightarrow> (handler_error + ask_response) \<times> server" where
  "askDispatch w body options now later s =
     (if body_modelPreference body = Some ''openai'' then
        (case getOpenAIResponse w (body_prompt body) (body_context body) options s of
           (Inl e, s1) \<Rightarrow> (Inl e, s1)
         | (Inr openaiText, s1) \<Rightarrow>
             (Inr \<lparr>response = openaiText, openaiResponse = None, deepseekResponse = None,
                   modelUsed = ''openai'', processingTime = later - now, cached = False\<rparr>, s1))
      else if body_modelPreference body = Some ''deepseek'' then
        (case getDeepSeekResponse w (body_prompt body) (body_context body) options s of
           (Inl e, s1) \<Rightarrow> (Inl e, s1)
         | (Inr deepseekText, s1) \<Rightarrow>
             (Inr \<lparr>response = deepseekText, openaiResponse = None, deepseekResponse = None,
                   modelUsed = ''deepseek'', processingTime = later - now, cached = False\<rparr>, s1))
      else
        (case getOpenAIResponse w (body_prompt body) (body_context body) options s of
           (openaiResult, s1) \<Rightarrow>
             (case getDeepSeekResponse w (body_prompt body) (body_context body) options s1 of
                (deepseekResult, s2) \<Rightarrow>
                  (case promiseAll openaiResult deepseekResult of
                     Inl e \<Rightarrow> (Inl e, s2)
                   | Inr (openaiText, deepseekText) \<Rightarrow>
                       (Inr \<lparr>response = mergeResponses openaiText deepseekText,
                             openaiResponse = Some openaiText,
                             deepseekResponse = Some deepseekText,
                             modelUsed = ''hybrid'', processingTime = later - now,
                             cached = False\<rparr>, s2)))))"

definition askPost ::
  "world \<Rightarrow> ask_body \<Rightarrow> nat \<Rightarrow> nat \<Rightarrow> server \<Rightarrow> (handler_error + ask_response) \<times> server" where
  "askPost w body now later s =
     (let cacheKey = askCacheKey (runtime_of w) body
      in case cache_get (responseCache s) cacheKey now of
           (Some cachedResponse, c1) \<Rightarrow>
             (Inr (cachedResponse\<lparr>cached := True\<rparr>),
              s\<lparr>responseCache := c1, requestStats := trackRequest True (requestStats s)\<rparr>)
         | (None, c1) \<Rightarrow>
             (let options = noOptions\<lparr>opt_temperature := Some (orNumber (body_temperature body) (7 / 10)),
                                      opt_maxTokens := Some (orNumber (body_maxTokens body) 4000)\<rparr>
              in case askDispatch w body options now later (s\<lparr>responseCache := c1\<rparr>) of
                   (Inl e, s1) \<Rightarrow>
                     (Inl e, s1\<lparr>requestStats := trackRequest False (requestStats s1)\<rparr>)
                 | (Inr resp, s1) \<Rightarrow>
                     (case cache_set (responseCache s1) cacheKey resp later of
                        None \<Rightarrow>
                          (Inl CacheFull, s1\<lparr>requestStats := trackRequest False (requestStats s1)\<rparr>)
                      | Some c2 \<Rightarrow>
                          (Inr resp, s1\<lparr>responseCache := c2,
                                         requestStats := trackRequest True (requestStats s1)\<rparr>))))"

text \<open>Requests served one after the other: each with its body and its two instants.\<close>

fun askPosts :: "world \<Rightarrow> (ask_body \<times> nat \<times> nat) list \<Rightarrow> server \<Rightarrow> server" where
  "askPosts w [] s = s"
| "askPosts w ((body, now, later) # rest) s = askPosts w rest (snd (askPost w body now later s))"

section \<open>Quota check (middleware/authMiddleware: checkQuota)\<close>

datatype middleware_result = Next | Respond nat string

definition checkQuota :: "string option \<Rightarrow> date \<Rightarrow> server \<Rightarrow> middleware_result \<times> server" where
  "checkQuota reqUser now s =
     (case reqUser of
        None \<Rightarrow> (Respond 401 ''Authentication required'', s)
      | Some userId \<Rightarrow>
          (case users s userId of
             None \<Rightarrow> (Respond 404 ''User not found'', s)
           | Some u \<Rightarrow>
               (let expired = date_less (resetDate (quota u)) now;
                    u1 = (if expired
                          then u\<lparr>quota := (quota u)\<lparr>used := 0,
                                   resetDate := newDate (getFullYear now) (getMonth now + 1) 1\<rparr>\<rparr>
                          else u);
                    s1 = (if expired then s\<lparr>users := (users s)(userId \<mapsto> u1)\<rparr> else s)
                in if used (quota u1) \<ge> monthly (quota u1)
                   then (Respond 403 ''Monthly usage quota exceeded'', s1)
                   else (Next, s1))))"

text \<open>
  A route that runs checkQuota before the rest of its chain (the later middleware and the
  handler): the rest runs only when checkQuota calls \<open>next\<close>.
\<close>

definition quotaGuarded ::
  "string option \<Rightarrow> date \<Rightarrow> (server \<Rightarrow> 'r \<times> server) \<Rightarrow> server \<Rightarrow> (nat \<times> string + 'r) \<times> server" where
  "quotaGuarded reqUser now rest s =
     (case checkQuota reqUser now s of
        (Respond code msg, s1) \<Rightarrow> (Inl (code, msg), s1)
      | (Next, s1) \<Rightarrow> (case rest s1 of (r, s2) \<Rightarrow> (Inr r, s2)))"

section \<open>Chat over a session (services/websocketService: handleChatMessage)\<close>

text \<open>
  A client that has authenticated has its user id and its session id set (handleAuth sets
  the session id to the one it is given or to a fresh one).
\<close>

record ws_client =
  ws_userId :: "string option"
  ws_sessionId :: string
  ws_open :: bool

record chat_payload =
  payload_message :: "string option"
  payload_modelPreference :: "string option"
  payload_context :: "json option"
  payload_sessionId :: "string option"

datatype ws_event =
    ErrorEvent string
  | ProcessingFailed handler_error
  | MessageReceived
  | TypingIndicator bool
  | MessageEvent string string string

text \<open>\<open>send\<close> writes to the socket only while it is open.\<close>

definition send :: "ws_client \<Rightarrow> ws_event \<Rightarrow> ws_event list \<Rightarrow> ws_event list" where
  "send ws ev sent = (if ws_open ws then sent @ [ev] else sent)"

text \<open>The merge of the session service: always both texts, in the order it is given them.\<close>

definition wsMergeResponses :: "string \<Rightarrow> string \<Rightarrow> string" where
  "wsMergeResponses response1 response2 =
     ''\<newline>## First AI Response\<newline>'' @ response1 @
     ''\<newline>\<newline>## Second AI Response\<newline>'' @ response2 @
     ''\<newline>\<newline>## Combined Analysis\<newline>Both AI models have provided insights on this topic. Consider the strengths of each approach when forming your conclusion.\<newline>''"

text \<open>
  The conversation document the handler works on: found in the collection for this user
  and session id, or made new. \<open>save\<close> validates the messages and writes the document.
\<close>

record conversation =
  isNew :: bool
  conv_userId :: string
  conv_sessionId :: string
  messages :: "conv_message list"

definition findOne :: "string \<Rightarrow> string \<Rightarrow> server \<Rightarrow> conversation option" where
  "findOne userId sessionId s =
     (case conversations s sessionId of
        None \<Rightarrow> None
      | Some (owner, ms) \<Rightarrow>
          if owner = userId
          then Some \<lparr>isNew = False, conv_userId = userId, conv_sessionId = sessionId, messages = ms\<rparr>
          else None)"

definition save :: "conversation \<Rightarrow> server \<Rightarrow> save_failure + conversation \<times> server" where
  "save doc s =
     (if list_ex (\<lambda>m. msg_content m = []) (messages doc) then Inl ContentRequired
      else if isNew doc \<and> conversations s (conv_sessionId doc) \<noteq> None then Inl DuplicateSessionId
      else Inr (doc\<lparr>isNew := False\<rparr>,
                s\<lparr>conversations := (conversations s)(conv_sessionId doc \<mapsto>
                                       (conv_userId doc, messages doc))\<rparr>))"

definition push :: "conv_message \<Rightarrow> conversation \<Rightarrow> conversation" where
  "push m doc = doc\<lparr>messages := messages doc @ [m]\<rparr>"

text \<open>
  The part of the handler after the model has answered: store the answer, send it, and
  switch the typing indicator off. When the answer cannot be stored, the handler's catch
  reports the failure instead.
\<close>

definition deliver ::
  "ws_client \<Rightarrow> conversation \<Rightarrow> string \<Rightarrow> string \<Rightarrow> ws_event list \<Rightarrow> server
     \<Rightarrow> ws_event list \<times> server" where
  "deliver ws doc responseContent modelUsedText sent s =
     (case save (push \<lparr>msg_content = responseContent, msg_role = ''assistant'',
                        msg_modelUsed = Some modelUsedText\<rparr> doc) s of
        Inl f \<Rightarrow> (send ws (ProcessingFailed (SaveFailed f)) sent, s)
      | Inr (doc1, s1) \<Rightarrow>
          (let sent1 = send ws (MessageEvent responseContent modelUsedText (conv_sessionId doc)) sent
           in (send ws (TypingIndicator False) sent1, s1)))"

definition startsWithDeepseek :: "string \<Rightarrow> bool" where
  "startsWithDeepseek m = (take 8 m = ''deepseek'')"

definition handleChatMessage ::
  "world \<Rightarrow> ws_client \<Rightarrow> chat_payload \<Rightarrow> server \<Rightarrow> ws_event list \<times> server" where
  "handleChatMessage w ws payload s =
     (case orString (ws_userId ws) None of
        None \<Rightarrow> (send ws (ErrorEvent ''Authentication required'') [], s)
      | Some userId \<Rightarrow>
     (case orString (payload_message payload) None of
        None \<Rightarrow> (send ws (ErrorEvent ''Message content required'') [], s)
      | Some message \<Rightarrow>
     (case users s userId of
        None \<Rightarrow> (send ws (ErrorEvent ''User not found'') [], s)
      | Some u \<Rightarrow>
     (if used (quota u) \<ge> monthly (quota u)
      then (send ws (ErrorEvent ''Monthly usage quota exceeded'') [], s)
      else
       (let actualSessionId = orText (payload_sessionId payload) (ws_sessionId ws);
            conversation =
              (case findOne userId actualSessionId s of
                 Some found \<Rightarrow> found
               | None \<Rightarrow> \<lparr>isNew = True, conv_userId = userId, conv_sessionId = actualSessionId,
                            messages = []\<rparr>)
        in case save (push \<lparr>msg_content = message, msg_role = ''user'', msg_modelUsed = None\<rparr>
                        conversation) s of
             Inl f \<Rightarrow> (send ws (ProcessingFailed (SaveFailed f)) [], s)
           | Inr (doc, s0) \<Rightarrow>
       (let sent0 = send ws (TypingIndicator True) (send ws MessageReceived []);
            model = orText (orString (payload_modelPreference payload) (defaultModel u)) ''hybrid'';
            context = payload_context payload
        in if model = ''hybrid'' then
             (case getDeepSeekResponse w message context (noOptions\<lparr>opt_userId := Some userId\<rparr>) s0 of
                (deepseekResult, s1) \<Rightarrow>
             (case getOpenAIResponse w message context noOptions s1 of
                (openaiResult, s2) \<Rightarrow>
             (case (deepseekResult, openaiResult) of
                (Inr deepseekText, Inr openaiText) \<Rightarrow>
                  deliver ws doc (wsMergeResponses deepseekText openaiText)
                    ''hybrid (deepseek + openai)'' sent0 s2
              | (Inr deepseekText, Inl e) \<Rightarrow> deliver ws doc deepseekText ''deepseek'' sent0 s2
              | (Inl e, Inr openaiText) \<Rightarrow> deliver ws doc openaiText ''openai'' sent0 s2
              | (Inl e, Inl e') \<Rightarrow>
                  (send ws (ErrorEvent ''All AI models failed to respond'') sent0, s2))))
           else if startsWithDeepseek model then
             (case getDeepSeekResponse w message context (noOptions\<lparr>opt_userId := Some userId\<rparr>) s0 of
                (Inl e, s1) \<Rightarrow> (send ws (ProcessingFailed e) sent0, s1)
              | (Inr deepseekText, s1) \<Rightarrow> deliver ws doc deepseekText model sent0 s1)
           else
             (case getOpenAIResponse w message context noOptions s0 of
                (Inl e, s1) \<Rightarrow> (send ws (ProcessingFailed e) sent0, s1)
              | (Inr openaiText, s1) \<Rightarrow> deliver ws doc openaiText ''openai'' sent0 s1)))))))"

section \<open>Merged streaming (utils/responseUtils: streamMergedResponses)\<close>

text \<open>
  What the function meets: for each provider, whether starting its stream throws or gives
  an emitter, and the events the emitters raise, in the order they arrive. A data event
  carries the content the handler extracts from the chunk, \<open>None\<close> when the chunk does not
  parse. The outgoing stream is the sequence of calls made on the response object.
  Registering the handlers happens inside the same \<open>try\<close> block as the start, so a start
  whose result is not an emitter ends in the \<open>catch\<close> branch like a start that throws;
  both are \<open>Throws\<close>.
\<close>

datatype stream_start = Throws | Emitter

datatype stream_event =
    Data provider "string option"
  | End provider
  | Error provider

record sse_event =
  sse_content :: string
  sse_model :: string
  sse_buffer :: "string option"
  sse_final :: bool

datatype res_call = Write sse_event | EndResponse

record merge_state =
  openaiDone :: bool
  deepseekDone :: bool
  openaiBuffer :: string
  deepseekBuffer :: string
  openaiListening :: bool
  deepseekListening :: bool
  resCalls :: "res_call list"

definition startingEvent :: sse_event where
  "startingEvent =
     \<lparr>sse_content = ''Starting both models in parallel...\<newline>\<newline>'', sse_model = ''system'',
      sse_buffer = None, sse_final = False\<rparr>"

definition finalEvent :: "string \<Rightarrow> sse_event" where
  "finalEvent mergedResponse =
     \<lparr>sse_content = ''\<newline>\<newline>## Final Merged Response\<newline>'' @ mergedResponse, sse_model = ''merged'',
      sse_buffer = None, sse_final = True\<rparr>"

definition checkBothDone :: "merge_state \<Rightarrow> merge_state" where
  "checkBothDone st =
     (if openaiDone st \<and> deepseekDone st
      then st\<lparr>resCalls := resCalls st @
                 [Write (finalEvent (mergeResponses (openaiBuffer st) (deepseekBuffer st))),
                  EndResponse]\<rparr>
      else st)"

fun onEvent :: "merge_state \<Rightarrow> stream_event \<Rightarrow> merge_state" where
  "onEvent st (Data OpenAI chunk) =
     (if openaiListening st \<and> textOrEmpty chunk \<noteq> []
      then (let buf = openaiBuffer st @ textOrEmpty chunk
            in st\<lparr>openaiBuffer := buf,
                  resCalls := resCalls st @
                    [Write \<lparr>sse_content = textOrEmpty chunk, sse_model = ''openai'',
                            sse_buffer = Some buf, sse_final = False\<rparr>]\<rparr>)
      else st)"
| "onEvent st (Data DeepSeek chunk) =
     (if deepseekListening st \<and> textOrEmpty chunk \<noteq> []
      then (let buf = deepseekBuffer st @ textOrEmpty chunk
            in st\<lparr>deepseekBuffer := buf,
                  resCalls := resCalls st @
                    [Write \<lparr>sse_content = textOrEmpty chunk, sse_model = ''deepseek'',
                            sse_buffer = Some buf, sse_final = False\<rparr>]\<rparr>)
      else st)"
| "onEvent st (End OpenAI) =
     (if openaiListening st then checkBothDone (st\<lparr>openaiDone := True\<rparr>) else st)"
| "onEvent st (Error OpenAI) =
     (if openaiListening st then checkBothDone (st\<lparr>openaiDone := True\<rparr>) else st)"
| "onEvent st (End DeepSeek) =
     (if deepseekListening st then checkBothDone (st\<lparr>deepseekDone := True\<rparr>) else st)"
| "onEvent st (Error DeepSeek) =
     (if deepseekListening st then checkBothDone (st\<lparr>deepseekDone := True\<rparr>) else st)"

definition startOpenAI :: "stream_start \<Rightarrow> merge_state \<Rightarrow> merge_state" where
  "startOpenAI start st =
     (case start of
        Emitter \<Rightarrow> st\<lparr>openaiListening := True\<rparr>
      | Throws \<Rightarrow> checkBothDone (st\<lparr>openaiDone := True\<rparr>))"

definition startDeepSeek :: "stream_start \<Rightarrow> merge_state \<Rightarrow> merge_state" where
  "startDeepSeek start st =
     (case start of
        Emitter \<Rightarrow> st\<lparr>deepseekListening := True\<rparr>
      | Throws \<Rightarrow> checkBothDone (st\<lparr>deepseekDone := True\<rparr>))"

definition initialMerge :: merge_state where
  "initialMerge =
     \<lparr>openaiDone = False, deepseekDone = False, openaiBuffer = [], deepseekBuffer = [],
      openaiListening = False, deepseekListening = False, resCalls = [Write startingEvent]\<rparr>"

text \<open>
  \<open>early\<close> are the events that arrive while the DeepSeek stream is being started, \<open>late\<close>
  those that arrive afterwards. Without a response object the function returns at once.
\<close>

definition streamMergedResponses ::
  "bool \<Rightarrow> stream_start \<Rightarrow> stream_event list \<Rightarrow> stream_start \<Rightarrow> stream_event list \<Rightarrow> res_call list" where
  "streamMergedResponses hasRes openaiStart early deepseekStart late =
     (if \<not> hasRes then []
      else resCalls (foldl onEvent
                      (startDeepSeek deepseekStart (foldl onEvent (startOpenAI openaiStart initialMerge) early))
                      late))"

text \<open>
  A provider's stream fails when starting it throws or when its emitter raises an error.
  The events are orderly when no provider raises anything after its end or error. The
  text accumulated from a provider is what its data events carried, in order.
\<close>

fun source :: "stream_event \<Rightarrow> provider" where
  "source (Data p chunk) = p"
| "source (End p) = p"
| "source (Error p) = p"

fun terminal :: "stream_event \<Rightarrow> bool" where
  "terminal (Data p chunk) = False"
| "terminal (End p) = True"
| "terminal (Error p) = True"

definition quiet :: "provider \<Rightarrow> stream_event list \<Rightarrow> bool" where
  "quiet p evs = list_all (\<lambda>e. source e \<noteq> p) evs"

fun orderly :: "provider \<Rightarrow> stream_event list \<Rightarrow> bool" where
  "orderly p [] = True"
| "orderly p (Data q chunk # evs) = orderly p evs"
| "orderly p (ev # evs) = (if source ev = p then quiet p evs else orderly p evs)"

definition streamFails :: "provider \<Rightarrow> stream_start \<Rightarrow> stream_event list \<Rightarrow> bool" where
  "streamFails p start evs = (start = Throws \<or> Error p \<in> set evs)"

fun accumulated :: "provider \<Rightarrow> stream_event list \<Rightarrow> string" where
  "accumulated p [] = []"
| "accumulated p (Data q chunk # evs) = (if q = p then textOrEmpty chunk else []) @ accumulated p evs"
| "accumulated p (ev # evs) = accumulated p evs"

text \<open>
  Notions for reasoning about the outgoing stream. Writes are non-final when each of them
  is a write of an event that is not marked final. A state is settled when its calls are
  the starting event and non-final writes, followed, once both providers are done, by the
  final event for the two buffers and the end of the response. A provider that is being
  listened to is awaited by a state when the events still to come are orderly for it, and
  bring nothing from it once it is done.
\<close>

definition nonFinalWrites :: "res_call list \<Rightarrow> bool" where
  "nonFinalWrites calls =
     list_all (\<lambda>c. case c of Write e \<Rightarrow> \<not> sse_final e | EndResponse \<Rightarrow> False) calls"

fun listening :: "provider \<Rightarrow> merge_state \<Rightarrow> bool" where
  "listening OpenAI st = openaiListening st"
| "listening DeepSeek st = deepseekListening st"

fun finished :: "provider \<Rightarrow> merge_state \<Rightarrow> bool" where
  "finished OpenAI st = openaiDone st"
| "finished DeepSeek st = deepseekDone st"

definition settled :: "merge_state \<Rightarrow> bool" where
  "settled st =
     (if openaiDone st \<and> deepseekDone st
      then \<exists>pre. resCalls st =
             Write startingEvent # pre @
               [Write (finalEvent (mergeResponses (openaiBuffer st) (deepseekBuffer st))), EndResponse]
             \<and> nonFinalWrites pre
      else \<exists>pre. resCalls st = Write startingEvent # pre \<and> nonFinalWrites pre)"

definition awaits :: "provider \<Rightarrow> merge_state \<Rightarrow> stream_event list \<Rightarrow> bool" where
  "awaits p st evs =
     (\<not> listening p st \<or> (if finished p st then quiet p evs else orderly p evs))"

section \<open>An example runtime\<close>

text \<open>
  A runtime to evaluate the examples with. It renders a JSON value the way
  \<open>JSON.stringify\<close> does: no white space, strings in double quotes with the quote, the
  backslash and the control characters escaped, the elements of an array and the members
  of an object in their order. It renders a number in decimal: an integer by its digits,
  a number with a finite decimal expansion with a point (0.7, -1.25), and any other
  rational, which JavaScript does not have, as a fraction.
\<close>

definition digitChar :: "nat \<Rightarrow> char" where
  "digitChar d = char_of (48 + d)"

function natText :: "nat \<Rightarrow> string" where
  "natText n = (if n < 10 then [digitChar n] else natText (n div 10) @ [digitChar (n mod 10)])"
  by pat_completeness auto
termination
  by (relation "measure id") auto

declare natText.simps [simp del]

fun fixedText :: "nat \<Rightarrow> nat \<Rightarrow> string" where
  "fixedText 0 f = []"
| "fixedText (Suc k) f = fixedText k (f div 10) @ [digitChar (f mod 10)]"

fun places :: "nat \<Rightarrow> rat \<Rightarrow> nat option" where
  "places 0 x = None"
| "places (Suc fuel) x =
     (if of_int \<lfloor>x\<rfloor> = x then Some 0 else map_option Suc (places fuel (x * 10)))"

definition magnitudeText :: "rat \<Rightarrow> string" where
  "magnitudeText a =
     (case places (nat (snd (quotient_of a))) a of
           Some k \<Rightarrow>
             (let m = nat \<lfloor>a * 10 ^ k\<rfloor>
              in natText (m div 10 ^ k) @
                 (if k = 0 then [] else ''.'' @ fixedText k (m mod 10 ^ k)))
         | None \<Rightarrow>
             natText (nat (fst (quotient_of a))) @ ''/'' @ natText (nat (snd (quotient_of a))))"

definition exampleNumberToString :: "rat \<Rightarrow> string" where
  "exampleNumberToString r = (if r < 0 then ''-'' else []) @ magnitudeText \<bar>r\<bar>"

definition hexDigit :: "nat \<Rightarrow> char" where
  "hexDigit d = (if d < 10 then char_of (48 + d) else char_of (87 + d))"

definition escapeChar :: "char \<Rightarrow> string" where
  "escapeChar c =
     (if c = CHR 0x22 then [CHR 0x5C, CHR 0x22]
      else if c = CHR 0x5C then [CHR 0x5C, CHR 0x5C]
      else if c = CHR 0x08 then [CHR 0x5C, CHR ''b'']
      else if c = CHR 0x09 then [CHR 0x5C, CHR ''t'']
      else if c = CHR 0x0A then [CHR 0x5C, CHR ''n'']
      else if c = CHR 0x0C then [CHR 0x5C, CHR ''f'']
      else if c = CHR 0x0D then [CHR 0x5C, CHR ''r'']
      else if (of_char c :: nat) < 32
        then [CHR 0x5C, CHR ''u'', CHR ''0'', CHR ''0'',
              hexDigit (of_char c div 16), hexDigit (of_char c mod 16)]
      else [c])"

definition quoteText :: "string \<Rightarrow> string" where
  "quoteText s = CHR 0x22 # concat (map escapeChar s) @ [CHR 0x22]"

fun exampleStringify :: "json \<Rightarrow> string"
  and elementsText :: "json list \<Rightarrow> string"
  and membersText :: "(string \<times> json) list \<Rightarrow> string" where
  "exampleStringify JNull = ''null''"
| "exampleStringify (JBool b) = (if b then ''true'' else ''false'')"
| "exampleStringify (JNumber n) = exampleNumberToString n"
| "exampleStringify (JString s) = quoteText s"
| "exampleStringify (JArray xs) = ''['' @ elementsText xs @ '']''"
| "exampleStringify (JObject kvs) = ''{'' @ membersText kvs @ ''}''"
| "elementsText [] = []"
| "elementsText [x] = exampleStringify x"
| "elementsText (x # y # ys) = exampleStringify x @ '','' @ elementsText (y # ys)"
| "membersText [] = []"
| "membersText [(k, v)] = quoteText k @ '':'' @ exampleStringify v"
| "membersText ((k, v) # m # ms) = quoteText k @ '':'' @ exampleStringify v @ '','' @ membersText (m # ms)"

definition exampleRuntime :: runtime where
  "exampleRuntime = \<lparr>stringify = exampleStringify, numberToString = exampleNumberToString\<rparr>"











section \<open>Example worlds\<close>

text \<open>Concrete values for the examples below.\<close>

definition exampleReply :: deepseek_reply where
  "exampleReply =
     \<lparr>reply_content = Some ''The answer is 4.'', reply_function_call = None, reply_total_tokens = 50\<rparr>"

definition answeringWorld :: world where
  "answeringWorld =
     \<lparr>runtime_of = exampleRuntime,
      openaiApi = (\<lambda>req k i. Inr (Some ''4'')),
      deepseekApi = (\<lambda>req k. Inr exampleReply)\<rparr>"

definition rejectingWorld :: world where
  "rejectingWorld =
     \<lparr>runtime_of = exampleRuntime,
      openaiApi = (\<lambda>req k i. Inl (HttpStatus 400)),
      deepseekApi = (\<lambda>req k. Inl (HttpStatus 400))\<rparr>"

definition openaiDownWorld :: world where
  "openaiDownWorld =
     \<lparr>runtime_of = exampleRuntime,
      openaiApi = (\<lambda>req k i. Inl (HttpStatus 503)),
      deepseekApi = (\<lambda>req k. Inr exampleReply)\<rparr>"

definition deepseekDownWorld :: world where
  "deepseekDownWorld =
     \<lparr>runtime_of = exampleRuntime,
      openaiApi = (\<lambda>req k i. Inr (Some ''4'')),
      deepseekApi = (\<lambda>req k. Inl Timeout)\<rparr>"

definition silentOpenAIWorld :: world where
  "silentOpenAIWorld =
     \<lparr>runtime_of = exampleRuntime,
      openaiApi = (\<lambda>req k i. Inr None),
      deepseekApi = (\<lambda>req k. Inl Timeout)\<rparr>"

definition flakyWorld :: world where
  "flakyWorld =
     \<lparr>runtime_of = exampleRuntime,
      openaiApi = (\<lambda>req k i. if k < 1 then Inl (HttpStatus 400) else Inr (Some ''4'')),
      deepseekApi = (\<lambda>req k. if k < 2 then Inl ConnectionReset else Inr exampleReply)\<rparr>"

definition emptyServer :: server where
  "emptyServer =
     \<lparr>responseCache = emptyCache, requestStats = initialStore, apiUsageLog = [],
      users = Map.empty, conversations = Map.empty, providerCalls = [],
      upstreamRequests = []\<rparr>"

definition exampleUser :: "nat \<Rightarrow> user" where
  "exampleUser usedSoFar =
     \<lparr>quota = \<lparr>monthly = 100, used = usedSoFar,
                resetDate = \<lparr>getFullYear = 2025, getMonth = 0, getDate = 1, msOfDay = 0\<rparr>\<rparr>,
      defaultModel = Some ''deepseek-v3''\<rparr>"

definition exampleServer :: "nat \<Rightarrow> server" where
  "exampleServer usedSoFar = emptyServer\<lparr>users := [''U'' \<mapsto> exampleUser usedSoFar]\<rparr>"

definition exampleBody :: ask_body where
  "exampleBody =
     \<lparr>body_prompt = ''2+2'', body_context = None, body_modelPreference = None,
      body_temperature = Some (7 / 10), body_maxTokens = Some 100\<rparr>"

definition exampleClient :: ws_client where
  "exampleClient = \<lparr>ws_userId = Some ''U'', ws_sessionId = ''S'', ws_open = True\<rparr>"

definition examplePayload :: chat_payload where
  "examplePayload =
     \<lparr>payload_message = Some ''2+2'', payload_modelPreference = Some ''hybrid'',
      payload_context = None, payload_sessionId = None\<rparr>"

section \<open>Properties of the merge policy\<close>

lemma combinedResponse_longer:
  "length (combinedResponse a b) > length a + length b"
  by (simp add: combinedResponse_def)

lemma combinedResponse_not_alone:
  "combinedResponse a b \<noteq> a \<and> combinedResponse a b \<noteq> b"
proof -
  have "length (combinedResponse a b) \<noteq> length a" "length (combinedResponse a b) \<noteq> length b"
    using combinedResponse_longer [of a b] by simp_all
  then show ?thesis by auto
qed

lemma longer_by_half_nat:
  "longer_by_half la lb = (2 * la > 3 * lb)"
proof -
  have "(real la > real lb * 1.5) = (2 * real la > 3 * real lb)" by auto
  also have "\<dots> = (real (2 * la) > real (3 * lb))" by simp
  also have "\<dots> = (2 * la > 3 * lb)" by (simp only: of_nat_less_iff)
  finally show ?thesis by (simp add: longer_by_half_def)
qed

lemma not_both_longer:
  "0 < la \<Longrightarrow> longer_by_half la lb \<Longrightarrow> \<not> longer_by_half lb la"
  by (simp add: longer_by_half_nat)

text \<open>
  C5. For two non-empty texts \<open>a\<close> (OpenAI's) and \<open>b\<close> (DeepSeek's): when \<open>a\<close> is more than
  one and a half times as long as \<open>b\<close>, mergeResponses returns \<open>a\<close> followed by a blank
  line and the one-line note "(DeepSeek provided a shorter response that was not
  included)"; when \<open>b\<close> is more than one and a half times as long as \<open>a\<close>, it returns
  \<open>b\<close> followed by a blank line and the note "(OpenAI provided a shorter response that was
  not included)"; the two cases exclude each other. Otherwise, and so for texts of equal
  length, it returns the combined form, which presents both texts under their labels and
  is never one of the texts alone.
\<close>

theorem mergeResponses_nonempty:
  assumes "a \<noteq> []" and "b \<noteq> []"
  shows "(real (length a) > 1.5 * real (length b) \<longrightarrow>
            mergeResponses a b =
              a @ ''\<newline>\<newline>(DeepSeek provided a shorter response that was not included)'')
       \<and> (real (length b) > 1.5 * real (length a) \<longrightarrow>
            mergeResponses a b =
              b @ ''\<newline>\<newline>(OpenAI provided a shorter response that was not included)'')
       \<and> \<not> (real (length a) > 1.5 * real (length b) \<and> real (length b) > 1.5 * real (length a))
       \<and> (\<not> real (length a) > 1.5 * real (length b) \<and> \<not> real (length b) > 1.5 * real (length a) \<longrightarrow>
            mergeResponses a b =
              ''\<newline>## OpenAI Response\<newline>'' @ a @ ''\<newline>\<newline>## DeepSeek Response\<newline>'' @ b @
              ''\<newline>\<newline>## Combined Analysis\<newline>Both models have provided insights on this topic. Consider the strengths of each approach when forming your conclusion.\<newline>'')
       \<and> (length a = length b \<longrightarrow>
            mergeResponses a b =
              ''\<newline>## OpenAI Response\<newline>'' @ a @ ''\<newline>\<newline>## DeepSeek Response\<newline>'' @ b @
              ''\<newline>\<newline>## Combined Analysis\<newline>Both models have provided insights on this topic. Consider the strengths of each approach when forming your conclusion.\<newline>'')
       \<and> (length a = length b \<longrightarrow> mergeResponses a b \<noteq> a \<and> mergeResponses a b \<noteq> b)
       \<and> (\<not> real (length a) > 1.5 * real (length b) \<and> \<not> real (length b) > 1.5 * real (length a) \<longrightarrow>
            mergeResponses a b \<noteq> a \<and> mergeResponses a b \<noteq> b)"
proof -
  have r: "\<And>x y. (real x > 1.5 * real y) = longer_by_half x y"
    by (simp add: longer_by_half_def mult.commute)
  have la: "0 < length a" and lb: "0 < length b" using assms by simp_all
  have 1: "longer_by_half (length a) (length b) \<longrightarrow>
             mergeResponses a b =
               a @ ''\<newline>\<newline>(DeepSeek provided a shorter response that was not included)''"
    using assms by (simp add: mergeResponses_def deepseekOmittedNote_def)
  have 2: "longer_by_half (length b) (length a) \<longrightarrow>
             mergeResponses a b =
               b @ ''\<newline>\<newline>(OpenAI provided a shorter response that was not included)''"
    using assms not_both_longer [OF la, of "length b"]
    by (auto simp: mergeResponses_def openaiOmittedNote_def)
  have 3: "\<not> (longer_by_half (length a) (length b) \<and> longer_by_half (length b) (length a))"
    using not_both_longer [OF la, of "length b"] by blast
  have 4: "\<not> longer_by_half (length a) (length b) \<and> \<not> longer_by_half (length b) (length a) \<longrightarrow>
            mergeResponses a b = combinedResponse a b"
    using assms by (simp add: mergeResponses_def)
  have 5: "length a = length b \<longrightarrow> mergeResponses a b = combinedResponse a b"
    using assms la by (simp add: mergeResponses_def longer_by_half_nat)
  have 6: "combinedResponse a b =
            ''\<newline>## OpenAI Response\<newline>'' @ a @ ''\<newline>\<newline>## DeepSeek Response\<newline>'' @ b @
            ''\<newline>\<newline>## Combined Analysis\<newline>Both models have provided insights on this topic. Consider the strengths of each approach when forming your conclusion.\<newline>''"
    by (simp only: combinedResponse_def)
  have 7: "combinedResponse a b \<noteq> a \<and> combinedResponse a b \<noteq> b"
    by (rule combinedResponse_not_alone)
  have 8: "length a = length b \<longrightarrow> mergeResponses a b \<noteq> a \<and> mergeResponses a b \<noteq> b"
    using 5 7 by simp
  have 9: "\<not> longer_by_half (length a) (length b) \<and> \<not> longer_by_half (length b) (length a) \<longrightarrow>
            mergeResponses a b \<noteq> a \<and> mergeResponses a b \<noteq> b"
    using 4 7 by simp
  show ?thesis
    unfolding r using 1 2 3 4 5 8 9 unfolding 6 by (intro conjI) assumption+
qed

theorem mergeResponses_nonempty_witness:
  "''4'' \<noteq> [] \<and> ''The answer is 4.'' \<noteq> []
   \<and> real (length ''The answer is 4.'') > 1.5 * real (length ''4'')
   \<and> mergeResponses ''4'' ''The answer is 4.'' =
       ''The answer is 4.\<newline>\<newline>(OpenAI provided a shorter response that was not included)''
   \<and> mergeResponses ''The answer is 4.'' ''4'' =
       ''The answer is 4.\<newline>\<newline>(DeepSeek provided a shorter response that was not included)''
   \<and> length ''four'' = length ''vier''
   \<and> mergeResponses ''four'' ''vier'' =
       ''\<newline>## OpenAI Response\<newline>four\<newline>\<newline>## DeepSeek Response\<newline>vier\<newline>\<newline>## Combined Analysis\<newline>Both models have provided insights on this topic. Consider the strengths of each approach when forming your conclusion.\<newline>''"
  using mergeResponses_nonempty [of "''4''" "''The answer is 4.''"]
        mergeResponses_nonempty [of "''The answer is 4.''" "''4''"]
        mergeResponses_nonempty [of "''four''" "''vier''"]
  by simp

text \<open>
  C9, as amended. For every non-empty text \<open>t\<close>, merging \<open>t\<close> with the empty text gives
  \<open>t\<close>, on either side. Merging two empty texts does not give the empty text: it gives
  the sentence "No response from either model.".
\<close>

theorem mergeResponses_empty_side:
  "(t \<noteq> [] \<longrightarrow> mergeResponses t [] = t \<and> mergeResponses [] t = t)
   \<and> mergeResponses [] [] = ''No response from either model.''"
  by (simp add: mergeResponses_def noResponseText_def)

theorem mergeResponses_empty_side_witness:
  "''4'' \<noteq> [] \<and> mergeResponses ''4'' [] = ''4'' \<and> mergeResponses [] ''4'' = ''4''"
  using mergeResponses_empty_side [of "''4''"] by simp

theorem mergeResponses_both_empty_counterexample:
  "mergeResponses [] [] \<noteq> []"
  by (simp add: mergeResponses_def noResponseText_def)

section \<open>Properties of the request statistics\<close>

lemma trackRequest_consistent:
  "counters_consistent st \<Longrightarrow> counters_consistent (trackRequest success st)"
  by (simp add: counters_consistent_def trackRequest_def Let_def)

lemma resetStats_consistent: "counters_consistent (resetStats st)"
  by (simp add: counters_consistent_def resetStats_def)

lemma store_step_consistent:
  "counters_consistent st \<Longrightarrow> counters_consistent (store_step st c)"
  by (cases c) (simp_all add: trackRequest_consistent resetStats_consistent)

lemma foldl_store_step_consistent:
  "counters_consistent st \<Longrightarrow> counters_consistent (foldl store_step st calls)"
  by (induction calls arbitrary: st) (simp_all add: store_step_consistent)

section \<open>Properties of double arithmetic\<close>

lemma bitlen_powi:
  assumes "0 < p"
  shows "(2::rat) powi (bitlen p - 1) \<le> of_int p" "of_int p < (2::rat) powi bitlen p"
proof -
  have b: "1 \<le> bitlen p" using assms by (auto simp: bitlen_alt_def)
  have "2 ^ nat (bitlen p - 1) \<le> p" "p < 2 ^ nat (bitlen p)"
    using bitlen_bounds [OF assms] by simp_all
  then have "(of_int (2 ^ nat (bitlen p - 1)) :: rat) \<le> of_int p" "(of_int p :: rat) < of_int (2 ^ nat (bitlen p))"
    by (simp_all only: of_int_le_iff of_int_less_iff)
  then show "(2::rat) powi (bitlen p - 1) \<le> of_int p" "of_int p < (2::rat) powi bitlen p"
    using b by (simp_all add: power_int_def)
qed

lemma exponentOf_bounds:
  assumes "x \<noteq> 0"
  shows "2 powi exponentOf x \<le> \<bar>x\<bar>" and "\<bar>x\<bar> < 2 powi (exponentOf x + 1)"
proof -
  obtain p q where pq: "quotient_of \<bar>x\<bar> = (p, q)" by (cases "quotient_of \<bar>x\<bar>")
  have q: "0 < q" using quotient_of_denom_pos [OF pq] .
  have x: "\<bar>x\<bar> = of_int p / of_int q" using quotient_of_div [OF pq] .
  have p: "0 < p"
  proof -
    have "0 < \<bar>x\<bar>" using assms by simp
    then have "0 < (of_int p :: rat) / of_int q" using x by simp
    then show ?thesis using q by (simp add: zero_less_divide_iff)
  qed
  let ?d = "bitlen p - bitlen q"
  have up: "\<bar>x\<bar> < 2 powi (?d + 1)"
  proof -
    have "of_int p / of_int q < (2::rat) powi bitlen p / of_int q"
      using bitlen_powi(2) [OF p] q by (simp add: divide_strict_right_mono)
    also have "\<dots> \<le> 2 powi bitlen p / 2 powi (bitlen q - 1)"
      using bitlen_powi(1) [OF q] by (intro divide_left_mono) (auto intro: mult_pos_pos simp: q)
    also have "\<dots> = 2 powi (?d + 1)"
      by (simp add: power_int_diff [symmetric] algebra_simps)
    finally show ?thesis using x by simp
  qed
  have lo: "2 powi (?d - 1) \<le> \<bar>x\<bar>"
  proof -
    have "(2::rat) powi (?d - 1) = 2 powi (bitlen p - 1) / 2 powi bitlen q"
      by (simp add: power_int_diff [symmetric] algebra_simps)
    also have "\<dots> \<le> of_int p / 2 powi bitlen q"
      using bitlen_powi(1) [OF p] by (simp add: divide_right_mono)
    also have "\<dots> \<le> of_int p / of_int q"
      using bitlen_powi(2) [OF q] p q by (intro divide_left_mono) (auto intro: mult_pos_pos)
    finally show ?thesis using x by simp
  qed
  show "2 powi exponentOf x \<le> \<bar>x\<bar>"
    using lo by (simp add: exponentOf_def pq Let_def)
  show "\<bar>x\<bar> < 2 powi (exponentOf x + 1)"
    using up by (auto simp add: exponentOf_def pq Let_def not_le)
qed

lemma roundHalfEven_error: "\<bar>of_int (roundHalfEven m) - m\<bar> \<le> 1 / 2"
proof -
  have f: "of_int \<lfloor>m\<rfloor> \<le> m" "m < of_int \<lfloor>m\<rfloor> + 1" by linarith+
  show ?thesis
    unfolding roundHalfEven_def Let_def using f by (simp add: abs_le_iff)
qed

lemma roundToDouble_error:
  assumes "2 powi (- 1022) \<le> \<bar>x\<bar>"
  shows "\<bar>roundToDouble x - x\<bar> \<le> \<bar>x\<bar> / 2 ^ 53"
proof -
  have x0: "x \<noteq> 0" using assms by auto
  have "2 powi (- 1022) < (2::rat) powi (exponentOf x + 1)"
    using assms exponentOf_bounds(2) [OF x0] by simp
  then have "- 1022 < exponentOf x + 1"
    using power_int_increasing [of "exponentOf x + 1" "- 1022" "2::rat"] by linarith
  then have m: "max (exponentOf x) (- 1022) = exponentOf x" by simp
  let ?e = "exponentOf x - 52"
  have pos: "0 < (2::rat) powi ?e" by simp
  have "\<bar>roundToDouble x - x\<bar> = \<bar>of_int (roundHalfEven (x / 2 powi ?e)) - x / 2 powi ?e\<bar> * 2 powi ?e"
  proof -
    have "roundToDouble x - x = (of_int (roundHalfEven (x / 2 powi ?e)) - x / 2 powi ?e) * 2 powi ?e"
      using x0 by (simp add: roundToDouble_def m Let_def algebra_simps)
    then show ?thesis using pos by (simp add: abs_mult)
  qed
  also have "\<dots> \<le> 1 / 2 * 2 powi ?e"
    using roundHalfEven_error [of "x / 2 powi ?e"] pos by (intro mult_right_mono) simp_all
  also have "\<dots> = 2 powi exponentOf x / 2 ^ 53"
    by (simp add: power_int_diff)
  also have "\<dots> \<le> \<bar>x\<bar> / 2 ^ 53"
    using exponentOf_bounds(1) [OF x0] by (simp add: divide_right_mono)
  finally show ?thesis .
qed

lemma roundToDouble_small:
  assumes "2 powi (- 1022) \<le> \<bar>x\<bar>"
  shows "\<bar>roundToDouble x\<bar> \<le> 2 * \<bar>x\<bar>"
proof -
  have "\<bar>x\<bar> / 2 ^ 53 \<le> \<bar>x\<bar>" by (simp add: divide_le_eq)
  then show ?thesis using roundToDouble_error [OF assms] by linarith
qed

lemma fromExact_finite:
  assumes "\<bar>roundToDouble x\<bar> < 2 ^ 1024"
  shows "fromExact x = Finite (roundToDouble x)"
  using assms unfolding fromExact_def Let_def by (auto simp only: abs_less_iff not_le split: if_splits)

lemma rate_accuracy:
  fixes s t :: nat
  assumes "0 < s" and "s \<le> t" and "t < 2 ^ 53"
  shows "\<exists>x. jsMultiply (jsDivide (Finite (of_nat s)) (Finite (of_nat t))) (Finite 100) = Finite x
           \<and> \<bar>x - 100 * of_nat s / of_nat t\<bar> \<le> (100 * of_nat s / of_nat t) / 2 ^ 51"
proof -
  define r :: rat where "r = of_nat s / of_nat t"
  define q where "q = roundToDouble r"
  define x where "x = roundToDouble (q * 100)"
  define d where "d = r / 2 ^ 53"
  have t0: "0 < t" using assms by simp
  have r1: "r \<le> 1" using assms t0 by (simp add: r_def)
  have rlow: "1 / 2 ^ 53 \<le> r"
  proof -
    have "(of_nat t :: rat) \<le> of_nat (2 ^ 53)" using assms(3) by (simp only: of_nat_le_iff)
    moreover have "(1::rat) \<le> of_nat s" using assms(1) by simp
    ultimately have "(of_nat t :: rat) \<le> 2 ^ 53 * of_nat s" by simp
    then show ?thesis using t0 by (simp add: r_def field_simps)
  qed
  have small: "(2::rat) powi (- 1022) \<le> 1 / 2 ^ 54"
    by (simp add: power_int_minus field_simps)
  have d0: "0 \<le> d" "d \<le> r / 2" "1 / 2 ^ 54 \<le> r / 2"
    using rlow by (simp_all add: d_def field_simps)
  have rn: "2 powi (- 1022) \<le> \<bar>r\<bar>" using small rlow d0 by linarith
  have eq: "\<bar>q - r\<bar> \<le> d"
    using roundToDouble_error [OF rn] rlow by (simp add: q_def d_def)
  have q2: "r / 2 \<le> q" "q \<le> 2 * r" using eq d0 by linarith+
  have qfin: "fromExact r = Finite q"
    unfolding q_def by (rule fromExact_finite) (use q2 r1 d0 in \<open>simp add: q_def [symmetric]\<close>)
  have qn: "2 powi (- 1022) \<le> \<bar>q * 100\<bar>" using small q2 d0 by linarith
  have ex: "\<bar>x - q * 100\<bar> \<le> \<bar>q * 100\<bar> / 2 ^ 53"
    unfolding x_def by (rule roundToDouble_error [OF qn])
  have "\<bar>q * 100\<bar> / 2 ^ 53 \<le> (200 * r) / 2 ^ 53"
    using q2 d0 by (intro divide_right_mono) simp_all
  then have ex': "\<bar>x - q * 100\<bar> \<le> 200 * d" using ex by (simp add: d_def)
  have xfin: "fromExact (q * 100) = Finite x"
    unfolding x_def by (rule fromExact_finite) (use ex' q2 r1 d0 in \<open>simp add: x_def [symmetric]\<close>)
  have "\<bar>x - 100 * r\<bar> \<le> 400 * d" using ex' eq d0 by linarith
  moreover have "400 * d = (100 * r) / 2 ^ 51" by (simp add: d_def)
  ultimately have bound: "\<bar>x - 100 * r\<bar> \<le> (100 * r) / 2 ^ 51" by simp
  have "jsMultiply (jsDivide (Finite (of_nat s)) (Finite (of_nat t))) (Finite 100) = Finite x"
    using t0 qfin xfin by (simp add: r_def)
  then show ?thesis using bound by (simp add: r_def)
qed


section \<open>The invariant of the request statistics\<close>

text \<open>
  C10, as amended. The request store satisfies totalRequests = successfulRequests +
  failedRequests initially; trackRequest keeps it and resetStats establishes it, so it
  holds after every sequence of calls. getStats reports a success rate of exactly 0 when
  totalRequests is 0. When totalRequests is positive it reports the double
  \<open>(successfulRequests / totalRequests) * 100\<close>: the quotient rounded to a double, times
  100, rounded again. That number is 100 when every request succeeded and 0 when none
  did; for consistent counters below \<open>2^53\<close> it is finite and within a relative error of
  \<open>2^-51\<close> of 100 * successfulRequests / totalRequests, which it need not equal.
\<close>

theorem requestStore_invariant:
  "counters_consistent initialStore
   \<and> (counters_consistent st \<longrightarrow> counters_consistent (trackRequest success st))
   \<and> counters_consistent (resetStats st)
   \<and> counters_consistent (store_run calls)
   \<and> (totalRequests st = 0 \<longrightarrow> successRate (getStats st) = Finite 0)
   \<and> (0 < totalRequests st \<longrightarrow>
        successRate (getStats st) =
          jsMultiply (jsDivide (Finite (of_nat (successfulRequests st)))
                               (Finite (of_nat (totalRequests st))))
                     (Finite 100))
   \<and> (0 < totalRequests st \<and> successfulRequests st = totalRequests st \<longrightarrow>
        successRate (getStats st) = Finite 100)
   \<and> (0 < totalRequests st \<and> successfulRequests st = 0 \<longrightarrow>
        successRate (getStats st) = Finite 0)
   \<and> (0 < totalRequests st \<and> totalRequests st < 2 ^ 53 \<and> counters_consistent st \<longrightarrow>
        (\<exists>x. successRate (getStats st) = Finite x
           \<and> \<bar>x - 100 * of_nat (successfulRequests st) / of_nat (totalRequests st)\<bar>
               \<le> (100 * of_nat (successfulRequests st) / of_nat (totalRequests st)) / 2 ^ 51))"
proof -
  have init: "counters_consistent initialStore"
    by (simp add: counters_consistent_def initialStore_def)
  have run: "counters_consistent (store_run calls)"
    unfolding store_run_def by (rule foldl_store_step_consistent [OF init])
  have zero: "totalRequests st = 0 \<longrightarrow> successRate (getStats st) = Finite 0"
    by (simp add: getStats_def)
  have rate: "0 < totalRequests st \<longrightarrow>
        successRate (getStats st) =
          jsMultiply (jsDivide (Finite (of_nat (successfulRequests st)))
                               (Finite (of_nat (totalRequests st))))
                     (Finite 100)"
    by (simp add: getStats_def)
  have one: "roundToDouble 1 = 1" and hundred: "roundToDouble 100 = 100"
    by code_simp+
  have all: "0 < totalRequests st \<and> successfulRequests st = totalRequests st \<longrightarrow>
        successRate (getStats st) = Finite 100"
    by (simp add: getStats_def fromExact_def one hundred)
  have none: "0 < totalRequests st \<and> successfulRequests st = 0 \<longrightarrow>
        successRate (getStats st) = Finite 0"
    by (simp add: getStats_def fromExact_def roundToDouble_def)
  have close: "0 < totalRequests st \<and> totalRequests st < 2 ^ 53 \<and> counters_consistent st \<longrightarrow>
        (\<exists>x. successRate (getStats st) = Finite x
           \<and> \<bar>x - 100 * of_nat (successfulRequests st) / of_nat (totalRequests st)\<bar>
               \<le> (100 * of_nat (successfulRequests st) / of_nat (totalRequests st)) / 2 ^ 51)"
  proof (intro impI, elim conjE)
    assume t: "0 < totalRequests st" "totalRequests st < 2 ^ 53" and c: "counters_consistent st"
    have le: "successfulRequests st \<le> totalRequests st"
      using c by (simp add: counters_consistent_def)
    show "\<exists>x. successRate (getStats st) = Finite x
           \<and> \<bar>x - 100 * of_nat (successfulRequests st) / of_nat (totalRequests st)\<bar>
               \<le> (100 * of_nat (successfulRequests st) / of_nat (totalRequests st)) / 2 ^ 51"
    proof (cases "successfulRequests st = 0")
      case True
      then show ?thesis using none t(1) by simp
    next
      case False
      then have "0 < successfulRequests st" by simp
      from rate_accuracy [OF this le t(2)] show ?thesis using rate t(1) by simp
    qed
  qed
  show ?thesis
    using init run trackRequest_consistent [of st success] resetStats_consistent [of st]
          zero rate all none close
    by (intro conjI impI) blast+
qed

theorem requestStore_invariant_witness:
  "counters_consistent \<lparr>totalRequests = 3, successfulRequests = 2, failedRequests = 1\<rparr>
   \<and> counters_consistent (trackRequest False \<lparr>totalRequests = 3, successfulRequests = 2, failedRequests = 1\<rparr>)
   \<and> counters_consistent (store_run [TrackRequest True, ResetStats, TrackRequest False])
   \<and> successRate (getStats \<lparr>totalRequests = 3, successfulRequests = 2, failedRequests = 1\<rparr>) =
       jsMultiply (jsDivide (Finite 2) (Finite 3)) (Finite 100)
   \<and> (\<exists>x. successRate (getStats \<lparr>totalRequests = 3, successfulRequests = 2, failedRequests = 1\<rparr>) = Finite x
         \<and> \<bar>x - 100 * 2 / 3\<bar> \<le> (100 * 2 / 3) / 2 ^ 51)
   \<and> successRate (getStats \<lparr>totalRequests = 3, successfulRequests = 3, failedRequests = 0\<rparr>) = Finite 100
   \<and> successRate (getStats initialStore) = Finite 0"
proof -
  let ?st = "\<lparr>totalRequests = 3, successfulRequests = 2, failedRequests = 1\<rparr>"
  let ?all = "\<lparr>totalRequests = 3, successfulRequests = 3, failedRequests = 0\<rparr>"
  have c: "counters_consistent ?st" by (simp add: counters_consistent_def)
  have t: "0 < totalRequests ?st" "totalRequests ?st < 2 ^ 53"
          "0 < totalRequests ?all" "successfulRequests ?all = totalRequests ?all"
          "totalRequests initialStore = 0"
    by (simp_all add: initialStore_def)
  note a = requestStore_invariant [of ?st False "[TrackRequest True, ResetStats, TrackRequest False]"]
  note b = requestStore_invariant [of ?all True "[]"]
  note i = requestStore_invariant [of initialStore True "[]"]
  have 1: "counters_consistent (trackRequest False ?st)" using a c by blast
  have 2: "counters_consistent (store_run [TrackRequest True, ResetStats, TrackRequest False])"
    using a by blast
  have 3: "successRate (getStats ?st) = jsMultiply (jsDivide (Finite 2) (Finite 3)) (Finite 100)"
    using a t(1) by simp
  have 4: "\<exists>x. successRate (getStats ?st) = Finite x \<and> \<bar>x - 100 * 2 / 3\<bar> \<le> (100 * 2 / 3) / 2 ^ 51"
  proof -
    have "\<exists>x. successRate (getStats ?st) = Finite x
            \<and> \<bar>x - 100 * of_nat (successfulRequests ?st) / of_nat (totalRequests ?st)\<bar>
                \<le> (100 * of_nat (successfulRequests ?st) / of_nat (totalRequests ?st)) / 2 ^ 51"
      using a c t(1,2) by blast
    then show ?thesis by simp
  qed
  have 5: "successRate (getStats ?all) = Finite 100" using b t(3,4) by blast
  have 6: "successRate (getStats initialStore) = Finite 0" using i t(5) by blast
  show ?thesis using c 1 2 3 4 5 6 by (intro conjI) assumption+
qed

lemma fromExact_eq:
  "roundToDouble x = y \<Longrightarrow> \<bar>y\<bar> < 2 ^ 1024 \<Longrightarrow> fromExact x = Finite y"
  using fromExact_finite [of x] by simp

lemma rate_11_of_20:
  "jsMultiply (jsDivide (Finite 11) (Finite 20)) (Finite 100) = Finite (55 + 1 / 2 ^ 47)"
proof -
  have a: "fromExact (11 / 20) = Finite (2476979795053773 / 2 ^ 52)"
    by (rule fromExact_eq) (code_simp, simp)
  have b: "fromExact (2476979795053773 / 2 ^ 52 * 100) = Finite (55 + 1 / 2 ^ 47)"
    by (rule fromExact_eq) (code_simp, simp)
  show ?thesis using a b by simp
qed

lemma rate_2_of_3:
  "jsMultiply (jsDivide (Finite 2) (Finite 3)) (Finite 100) = Finite (2345624805922133 / 2 ^ 45)"
  "fromExact (100 * 2 / 3) = Finite (4691249611844267 / 2 ^ 46)"
proof -
  have a: "fromExact (2 / 3) = Finite (6004799503160661 / 2 ^ 53)"
    by (rule fromExact_eq) (code_simp, simp)
  have b: "fromExact (6004799503160661 / 2 ^ 53 * 100) = Finite (2345624805922133 / 2 ^ 45)"
    by (rule fromExact_eq) (code_simp, simp)
  show "jsMultiply (jsDivide (Finite 2) (Finite 3)) (Finite 100) = Finite (2345624805922133 / 2 ^ 45)"
    using a b by simp
  show "fromExact (100 * 2 / 3) = Finite (4691249611844267 / 2 ^ 46)"
    by (rule fromExact_eq) (code_simp, simp)
qed

lemma run_11_of_20:
  "store_run (replicate 11 (TrackRequest True) @ replicate 9 (TrackRequest False)) =
     \<lparr>totalRequests = 20, successfulRequests = 11, failedRequests = 9\<rparr>"
  by (simp add: store_run_def initialStore_def trackRequest_def Let_def eval_nat_numeral)

theorem requestStore_success_rate_counterexample:
  "store_run (replicate 11 (TrackRequest True) @ replicate 9 (TrackRequest False)) =
     \<lparr>totalRequests = 20, successfulRequests = 11, failedRequests = 9\<rparr>
   \<and> successRate (getStats \<lparr>totalRequests = 20, successfulRequests = 11, failedRequests = 9\<rparr>) =
       Finite (55 + 1 / 2 ^ 47)
   \<and> successRate (getStats \<lparr>totalRequests = 20, successfulRequests = 11, failedRequests = 9\<rparr>) \<noteq>
       Finite (100 * 11 / 20)
   \<and> successRate (getStats \<lparr>totalRequests = 3, successfulRequests = 2, failedRequests = 1\<rparr>) \<noteq>
       fromExact (100 * 2 / 3)"
  using run_11_of_20 rate_11_of_20 rate_2_of_3 by (simp add: getStats_def)

section \<open>Properties of the retry policy\<close>

lemma client_opts:
  "numOfAttempts clientBackoffOptions = 3"
  "startingDelay clientBackoffOptions = 1000"
  "timeMultiple clientBackoffOptions = 2"
  "retry clientBackoffOptions e n = True"
  by (simp_all add: clientBackoffOptions_def)

lemma execute_client_2:
  "execute clientBackoffOptions request 2 sl =
     \<lparr>outcome = request 2, attempts = 3, slept = sl @ [2000]\<rparr>"
  by (subst execute.simps) (simp add: client_opts Let_def split: sum.splits)

lemma execute_client_1:
  "execute clientBackoffOptions request 1 sl =
     (case request 1 of
        Inr v \<Rightarrow> \<lparr>outcome = Inr v, attempts = 2, slept = sl @ [1000]\<rparr>
      | Inl e \<Rightarrow> \<lparr>outcome = request 2, attempts = 3, slept = sl @ [1000, 2000]\<rparr>)"
  by (subst execute.simps) (simp add: client_opts Let_def execute_client_2 numeral_2_eq_2 split: sum.splits)

lemma backOff_client:
  "backOff request clientBackoffOptions =
     (case request 0 of
        Inr v \<Rightarrow> \<lparr>outcome = Inr v, attempts = 1, slept = []\<rparr>
      | Inl e0 \<Rightarrow>
          (case request 1 of
             Inr v \<Rightarrow> \<lparr>outcome = Inr v, attempts = 2, slept = [1000]\<rparr>
           | Inl e1 \<Rightarrow> \<lparr>outcome = request 2, attempts = 3, slept = [1000, 2000]\<rparr>))"
proof -
  have s: "sanitize clientBackoffOptions = clientBackoffOptions"
    by (simp add: sanitize_def client_opts)
  show ?thesis
    unfolding backOff_def s
    by (subst execute.simps) (simp add: client_opts Let_def execute_client_1 numeral_2_eq_2 split: sum.splits)
qed

lemma create_eval:
  "create http =
     (case http 0 of
        Inr v \<Rightarrow> (Inr v, 1)
      | Inl e0 \<Rightarrow>
          if sdkShouldRetry e0
          then (case http 1 of
                  Inr v \<Rightarrow> (Inr v, 2)
                | Inl e1 \<Rightarrow> if sdkShouldRetry e1 then (http 2, 3) else (Inl e1, 2))
          else (Inl e0, 1))"
  by (simp add: create_def maxRetries_def numeral_2_eq_2 split: sum.splits)

lemma create_facts:
  fixes http :: "nat \<Rightarrow> failure + 'a"
  shows "1 \<le> snd (create http)"
    and "snd (create http) \<le> 3"
    and "fst (create http) = http (snd (create http) - 1)"
    and "\<forall>i < snd (create http) - 1. \<exists>e. http i = Inl e \<and> sdkShouldRetry e"
    and "snd (create http) < 3 \<longrightarrow> (\<forall>e. fst (create http) = Inl e \<longrightarrow> \<not> sdkShouldRetry e)"
  by (auto simp: create_eval less_Suc_eq numeral_2_eq_2 split: sum.splits)

lemma sum_list_between:
  "(\<And>x. x \<in> set xs \<Longrightarrow> 1 \<le> f x \<and> f x \<le> (3::nat)) \<Longrightarrow>
   length xs \<le> sum_list (map f xs) \<and> sum_list (map f xs) \<le> 3 * length xs"
  by (induction xs) (simp, force)

lemma upt_small: "[0..<1] = [0]" "[0..<2] = [0, 1]" "[0..<3] = [0, 1, 2]"
  by (simp_all add: upt_rec)

lemma getOpenAIResponse_calls:
  "providerCalls (snd (getOpenAIResponse w prompt ctx options s)) =
     providerCalls s @
       [(OpenAI,
         attempts (backOff (\<lambda>k. fst (create (openaiApi w (openaiRequest (runtime_of w) prompt ctx options) k)))
                     clientBackoffOptions),
         slept (backOff (\<lambda>k. fst (create (openaiApi w (openaiRequest (runtime_of w) prompt ctx options) k)))
                  clientBackoffOptions))]"
  by (simp add: getOpenAIResponse_def Let_def split: sum.splits)

lemma getOpenAIResponse_upstream:
  "\<exists>n. upstreamRequests (snd (getOpenAIResponse w prompt ctx options s)) =
          upstreamRequests s @ [(OpenAI, n)]
      \<and> attempts (backOff (\<lambda>k. fst (create (openaiApi w (openaiRequest (runtime_of w) prompt ctx options) k)))
                    clientBackoffOptions) \<le> n
      \<and> n \<le> 3 * attempts (backOff (\<lambda>k. fst (create (openaiApi w (openaiRequest (runtime_of w) prompt ctx options) k)))
                        clientBackoffOptions)"
proof -
  let ?call = "\<lambda>k. create (openaiApi w (openaiRequest (runtime_of w) prompt ctx options) k)"
  let ?a = "attempts (backOff (\<lambda>k. fst (?call k)) clientBackoffOptions)"
  have "length [0..<?a] \<le> sum_list (map (\<lambda>k. snd (?call k)) [0..<?a])
        \<and> sum_list (map (\<lambda>k. snd (?call k)) [0..<?a]) \<le> 3 * length [0..<?a]"
    by (rule sum_list_between) (rule conjI [OF create_facts(1) create_facts(2)])
  then show ?thesis
    by (simp add: getOpenAIResponse_def Let_def split: sum.splits)
qed

lemma trackUsage_calls:
  "providerCalls (trackUsage u m n e s) = providerCalls s"
  "upstreamRequests (trackUsage u m n e s) = upstreamRequests s"
  by (simp_all add: trackUsage_def Let_def split: option.splits)

lemma getDeepSeekResponse_calls:
  "providerCalls (snd (getDeepSeekResponse w prompt ctx options s)) =
     providerCalls s @
       [(DeepSeek,
         attempts (backOff (deepseekApi w (deepseekRequest (runtime_of w) prompt ctx options)) clientBackoffOptions),
         slept (backOff (deepseekApi w (deepseekRequest (runtime_of w) prompt ctx options)) clientBackoffOptions))]"
  by (simp add: getDeepSeekResponse_def Let_def trackUsage_calls split: sum.splits option.splits)

lemma getDeepSeekResponse_upstream:
  "upstreamRequests (snd (getDeepSeekResponse w prompt ctx options s)) =
     upstreamRequests s @
       [(DeepSeek,
         attempts (backOff (deepseekApi w (deepseekRequest (runtime_of w) prompt ctx options)) clientBackoffOptions))]"
  by (simp add: getDeepSeekResponse_def Let_def trackUsage_calls split: sum.splits option.splits)

lemma backOff_client_facts:
  fixes request :: "nat \<Rightarrow> failure + 'a"
  shows "1 \<le> attempts (backOff request clientBackoffOptions)"
    and "attempts (backOff request clientBackoffOptions) \<le> 3"
    and "slept (backOff request clientBackoffOptions) =
           take (attempts (backOff request clientBackoffOptions) - 1) [1000, 2000]"
    and "outcome (backOff request clientBackoffOptions) =
           request (attempts (backOff request clientBackoffOptions) - 1)"
    and "\<forall>k < attempts (backOff request clientBackoffOptions) - 1. isl (request k)"
    and "attempts (backOff request clientBackoffOptions) < 3 \<longrightarrow>
           \<not> isl (outcome (backOff request clientBackoffOptions))"
  by (auto simp: backOff_client less_Suc_eq numeral_2_eq_2 split: sum.splits)

text \<open>
  C6, as amended. Every synchronous completion call of either client runs the same retry
  loop, and is recorded with the attempts and delays of that loop. The loop makes at least
  one and at most three attempts, sleeps 1000 ms before the second and 2000 ms before the
  third, and returns the outcome of its last attempt. All attempts before the last one
  failed, and the loop stops short of three attempts only on a success: a failed attempt
  is retried whatever its kind, a validation failure as much as a timeout, a 5xx answer or
  a connection reset. An attempt of the DeepSeek client is one HTTP request, so a call
  sends as many requests as it makes attempts. An attempt of the OpenAI client is one call
  of the SDK's \<open>create\<close>, which sends between one and three HTTP requests: it repeats a
  request that ended in a connection error, a timeout or a status 408, 409, 429 or 5xx,
  and gives up at once on any other failure. A call of the OpenAI client therefore sends
  at least as many requests as it makes attempts and at most three times as many, nine at
  the most.
\<close>

theorem client_retry_policy:
  fixes request :: "nat \<Rightarrow> failure + 'a" and http :: "nat \<Rightarrow> failure + 'b"
  shows
  "(let run = backOff (\<lambda>k. fst (create (openaiApi w (openaiRequest (runtime_of w) prompt ctx options) k)))
                clientBackoffOptions;
        s' = snd (getOpenAIResponse w prompt ctx options s)
    in providerCalls s' = providerCalls s @ [(OpenAI, attempts run, slept run)]
     \<and> (\<exists>n. upstreamRequests s' = upstreamRequests s @ [(OpenAI, n)]
            \<and> attempts run \<le> n \<and> n \<le> 3 * attempts run \<and> n \<le> 9))
   \<and> (let run = backOff (deepseekApi w (deepseekRequest (runtime_of w) prompt ctx options))
                   clientBackoffOptions;
           s' = snd (getDeepSeekResponse w prompt ctx options s)
       in providerCalls s' = providerCalls s @ [(DeepSeek, attempts run, slept run)]
        \<and> upstreamRequests s' = upstreamRequests s @ [(DeepSeek, attempts run)])
   \<and> (let run = backOff request clientBackoffOptions
      in 1 \<le> attempts run \<and> attempts run \<le> 3
       \<and> slept run = take (attempts run - 1) [1000, 2000]
       \<and> outcome run = request (attempts run - 1)
       \<and> (\<forall>k < attempts run - 1. isl (request k))
       \<and> (attempts run < 3 \<longrightarrow> \<not> isl (outcome run)))
   \<and> (let sent = snd (create http)
      in 1 \<le> sent \<and> sent \<le> 3
       \<and> fst (create http) = http (sent - 1)
       \<and> (\<forall>i < sent - 1. \<exists>e. http i = Inl e \<and> sdkShouldRetry e)
       \<and> (sent < 3 \<longrightarrow> (\<forall>e. fst (create http) = Inl e \<longrightarrow> \<not> sdkShouldRetry e)))"
proof -
  let ?run = "backOff (\<lambda>k. fst (create (openaiApi w (openaiRequest (runtime_of w) prompt ctx options) k)))
                clientBackoffOptions"
  obtain n where n: "upstreamRequests (snd (getOpenAIResponse w prompt ctx options s)) =
          upstreamRequests s @ [(OpenAI, n)]" "attempts ?run \<le> n" "n \<le> 3 * attempts ?run"
    using getOpenAIResponse_upstream [of w prompt ctx options s] by blast
  have "attempts ?run \<le> 3" by (rule backOff_client_facts(2))
  then have "n \<le> 9" using n(3) by simp
  then have o: "\<exists>n. upstreamRequests (snd (getOpenAIResponse w prompt ctx options s)) =
          upstreamRequests s @ [(OpenAI, n)]
        \<and> attempts ?run \<le> n \<and> n \<le> 3 * attempts ?run \<and> n \<le> 9"
    using n by blast
  show ?thesis
    unfolding Let_def
    using o getOpenAIResponse_calls [of w prompt ctx options s]
          getDeepSeekResponse_calls [of w prompt ctx options s]
          getDeepSeekResponse_upstream [of w prompt ctx options s]
          backOff_client_facts [of request] create_facts [of http]
    by (intro conjI) assumption+
qed

theorem client_retry_policy_witness:
  "providerCalls (snd (getOpenAIResponse flakyWorld ''2+2'' None noOptions emptyServer)) =
     [(OpenAI, 2, [1000])]
   \<and> upstreamRequests (snd (getOpenAIResponse flakyWorld ''2+2'' None noOptions emptyServer)) =
     [(OpenAI, 2)]
   \<and> providerCalls (snd (getDeepSeekResponse flakyWorld ''2+2'' None noOptions emptyServer)) =
     [(DeepSeek, 3, [1000, 2000])]
   \<and> upstreamRequests (snd (getDeepSeekResponse flakyWorld ''2+2'' None noOptions emptyServer)) =
     [(DeepSeek, 3)]
   \<and> attempts (backOff (\<lambda>k. if k < 1 then Inl Timeout else Inr True) clientBackoffOptions) = 2
   \<and> attempts (backOff (\<lambda>k. if k < 1 then Inl Timeout else Inr True) clientBackoffOptions) < 3
   \<and> \<not> isl (outcome (backOff (\<lambda>k. if k < 1 then Inl Timeout else Inr True) clientBackoffOptions))
   \<and> isl ((\<lambda>k. if k < 1 then Inl Timeout else Inr True) (0::nat) :: failure + bool)
   \<and> create (\<lambda>i. if i < 1 then Inl (HttpStatus 503) else Inl (HttpStatus 400) :: failure + bool) =
       (Inl (HttpStatus 400), 2)
   \<and> sdkShouldRetry (HttpStatus 503) \<and> \<not> sdkShouldRetry (HttpStatus 400)"
  using client_retry_policy [of flakyWorld "''2+2''" None noOptions emptyServer
          "\<lambda>k. if k < 1 then Inl Timeout else Inr True"
          "\<lambda>i. if i < 1 then Inl (HttpStatus 503) else Inl (HttpStatus 400) :: failure + bool"]
  by (simp add: backOff_client create_eval flakyWorld_def emptyServer_def Let_def
        getOpenAIResponse_def upt_small)

theorem client_retries_validation_failure_counterexample:
  "validation_failure (HttpStatus 400)
   \<and> \<not> transient_failure (HttpStatus 400)
   \<and> providerCalls (snd (getOpenAIResponse rejectingWorld ''2+2'' None noOptions emptyServer)) =
       [(OpenAI, 3, [1000, 2000])]
   \<and> providerCalls (snd (getDeepSeekResponse rejectingWorld ''2+2'' None noOptions emptyServer)) =
       [(DeepSeek, 3, [1000, 2000])]
   \<and> upstreamRequests (snd (getOpenAIResponse rejectingWorld ''2+2'' None noOptions emptyServer)) =
       [(OpenAI, 3)]
   \<and> upstreamRequests (snd (getDeepSeekResponse rejectingWorld ''2+2'' None noOptions emptyServer)) =
       [(DeepSeek, 3)]
   \<and> transient_failure (HttpStatus 503)
   \<and> upstreamRequests (snd (getOpenAIResponse openaiDownWorld ''2+2'' None noOptions emptyServer)) =
       [(OpenAI, 9)]"
  by (simp add: getOpenAIResponse_def getDeepSeekResponse_calls getDeepSeekResponse_upstream
        backOff_client create_eval rejectingWorld_def openaiDownWorld_def emptyServer_def Let_def
        upt_small)

section \<open>Properties of the example runtime\<close>







































section \<open>Properties of the cache keys\<close>



lemma askCacheKey_ignores_preference:
  "askCacheKey rt (body\<lparr>body_modelPreference := m\<rparr>) = askCacheKey rt body"
  by (simp add: askCacheKey_def)





section \<open>Properties of the one-shot route and its cache\<close>

lemma trackUsage_responseCache: "responseCache (trackUsage u m n e s) = responseCache s"
  by (simp add: trackUsage_def Let_def split: option.splits)

lemma getOpenAIResponse_responseCache:
  "responseCache (snd (getOpenAIResponse w prompt ctx options s)) = responseCache s"
  by (simp add: getOpenAIResponse_def Let_def split: sum.splits)

lemma getDeepSeekResponse_responseCache:
  "responseCache (snd (getDeepSeekResponse w prompt ctx options s)) = responseCache s"
  by (simp add: getDeepSeekResponse_def Let_def trackUsage_responseCache split: sum.splits option.splits)

lemma askDispatch_responseCache:
  "responseCache (snd (askDispatch w body options now later s)) = responseCache s"
  by (simp add: askDispatch_def split_beta getOpenAIResponse_responseCache
        getDeepSeekResponse_responseCache split: sum.splits)

lemma cache_get_hit:
  "cache_data c key = Some (v, t) \<Longrightarrow> now \<le> t \<Longrightarrow> cache_get c key now = (Some v, c)"
  by (simp add: cache_get_def)

lemma cache_get_other:
  "key' \<noteq> key \<Longrightarrow> cache_data (snd (cache_get c key' now)) key = cache_data c key"
  by (simp add: cache_get_def split: option.splits prod.splits)

lemma cache_set_other:
  "key' \<noteq> key \<Longrightarrow> cache_set c key' v now = Some c' \<Longrightarrow> cache_data c' key = cache_data c key"
  by (auto simp: cache_set_def split: if_splits)

lemma cache_set_same:
  "cache_set c key v now = Some c' \<Longrightarrow> cache_data c' key = Some (v, now + stdTTL * 1000)"
  by (auto simp: cache_set_def split: if_splits)

lemma askPost_hit:
  assumes "cache_data (responseCache s) (askCacheKey (runtime_of w) body) = Some (r, t)" and "now \<le> t"
  shows "askPost w body now later s =
           (Inr (r\<lparr>cached := True\<rparr>), s\<lparr>requestStats := trackRequest True (requestStats s)\<rparr>)"
  using cache_get_hit [OF assms] by (simp add: askPost_def Let_def)

lemma askPost_fresh_stores:
  assumes "fst (askPost w body now later s) = Inr r" and "\<not> cached r"
  shows "cache_data (responseCache (snd (askPost w body now later s))) (askCacheKey (runtime_of w) body)
           = Some (r, later + stdTTL * 1000)"
  using assms
  by (auto simp: askPost_def Let_def cache_set_same split: prod.splits option.splits sum.splits)

lemma askPost_keeps_entry:
  assumes "cache_data (responseCache s) key = Some (r, t)" and "now \<le> t"
  shows "cache_data (responseCache (snd (askPost w body now later s))) key = Some (r, t)"
proof (cases "askCacheKey (runtime_of w) body = key")
  case True
  then show ?thesis using askPost_hit [of s w body r t now later] assms by simp
next
  case False
  have g: "cache_data (snd (cache_get (responseCache s) (askCacheKey (runtime_of w) body) now)) key = Some (r, t)"
    using cache_get_other [OF False, of "responseCache s" now] assms by simp
  show ?thesis
    using g
    by (auto simp: askPost_def Let_def split_beta askDispatch_responseCache
          split: option.splits sum.splits dest!: cache_set_other [OF False])
qed

lemma askPosts_keeps_entry:
  assumes "cache_data (responseCache s) key = Some (r, t)"
      and "\<forall>(b, now, later) \<in> set between. now \<le> t"
  shows "cache_data (responseCache (askPosts w between s)) key = Some (r, t)"
  using assms
proof (induction between arbitrary: s)
  case Nil
  then show ?case by simp
next
  case (Cons req between)
  obtain b now later where req: "req = (b, now, later)" by (cases req)
  have "cache_data (responseCache (snd (askPost w b now later s))) key = Some (r, t)"
    using Cons.prems req by (intro askPost_keeps_entry) auto
  then show ?case using Cons req by simp
qed


lemma askPost_hit_frame:
  assumes "cache_data (responseCache s) (askCacheKey (runtime_of w) body) = Some (r, t)" and "now \<le> t"
  shows "fst (askPost w body now later s) = Inr (r\<lparr>cached := True\<rparr>)"
    and "providerCalls (snd (askPost w body now later s)) = providerCalls s"
    and "apiUsageLog (snd (askPost w body now later s)) = apiUsageLog s"
    and "users (snd (askPost w body now later s)) = users s"
  using askPost_hit [OF assms, of later] by simp_all

text \<open>
  C2. Let a request to the one-shot route be answered with a freshly computed result,
  which the handler stores at the instant \<open>t0'\<close>. Let any requests follow that start no
  later than the standard time to live after \<open>t0'\<close>, and then a request with the same
  cache key that starts within that time as well. This last call returns the stored result
  with \<open>cached\<close> set to true, invokes no provider client and leaves the usage ledger and
  the users' quota as they were.
\<close>

theorem cache_hit_within_ttl:
  assumes "fst (askPost w body1 t0 t0' s) = Inr r"
      and "\<not> cached r"
      and "\<forall>(b, now, later) \<in> set between. now \<le> t0' + stdTTL * 1000"
      and "askCacheKey (runtime_of w) body2 = askCacheKey (runtime_of w) body1"
      and "t1 \<le> t0' + stdTTL * 1000"
  shows "(let s2 = askPosts w between (snd (askPost w body1 t0 t0' s));
              second = askPost w body2 t1 t1' s2
          in fst second = Inr (r\<lparr>cached := True\<rparr>)
           \<and> providerCalls (snd second) = providerCalls s2
           \<and> apiUsageLog (snd second) = apiUsageLog s2
           \<and> users (snd second) = users s2)"
proof -
  let ?s1 = "snd (askPost w body1 t0 t0' s)"
  let ?s2 = "askPosts w between ?s1"
  have stored: "cache_data (responseCache ?s1) (askCacheKey (runtime_of w) body1)
                  = Some (r, t0' + stdTTL * 1000)"
    using askPost_fresh_stores [OF assms(1) assms(2)] .
  have kept: "cache_data (responseCache ?s2) (askCacheKey (runtime_of w) body2)
                = Some (r, t0' + stdTTL * 1000)"
    using askPosts_keeps_entry [OF stored assms(3)] assms(4) by simp
  show ?thesis
    unfolding Let_def
    using askPost_hit_frame [OF kept assms(5), of t1'] by simp
qed

lemmas example_defs =
  answeringWorld_def exampleBody_def emptyServer_def emptyCache_def exampleReply_def
  noOptions_def create_eval upt_small

lemma example_first_call:
  "fst (askPost answeringWorld exampleBody 0 10 emptyServer) =
     Inr \<lparr>response = ''The answer is 4.'' @ openaiOmittedNote,
          openaiResponse = Some ''4'', deepseekResponse = Some ''The answer is 4.'',
          modelUsed = ''hybrid'', processingTime = 10, cached = False\<rparr>"
  by (simp add: askPost_def askDispatch_def getOpenAIResponse_def getDeepSeekResponse_def
        backOff_client example_defs cache_get_def cache_set_def maxKeys_def
        mergeResponses_def longer_by_half_nat Let_def)

theorem cache_hit_within_ttl_witness:
  "fst (askPost answeringWorld exampleBody 0 10 emptyServer) =
     Inr \<lparr>response = ''The answer is 4.'' @ openaiOmittedNote,
          openaiResponse = Some ''4'', deepseekResponse = Some ''The answer is 4.'',
          modelUsed = ''hybrid'', processingTime = 10, cached = False\<rparr>
   \<and> 300010 \<le> 10 + stdTTL * 1000
   \<and> (let s2 = askPosts answeringWorld [(exampleBody\<lparr>body_prompt := ''3+3''\<rparr>, 20, 30)]
                  (snd (askPost answeringWorld exampleBody 0 10 emptyServer));
            second = askPost answeringWorld exampleBody 300010 300020 s2
        in fst second =
             Inr \<lparr>response = ''The answer is 4.'' @ openaiOmittedNote,
                  openaiResponse = Some ''4'', deepseekResponse = Some ''The answer is 4.'',
                  modelUsed = ''hybrid'', processingTime = 10, cached = True\<rparr>
         \<and> providerCalls (snd second) = providerCalls s2
         \<and> apiUsageLog (snd second) = apiUsageLog s2
         \<and> users (snd second) = users s2)"
  using cache_hit_within_ttl [of answeringWorld exampleBody 0 10 emptyServer
          "\<lparr>response = ''The answer is 4.'' @ openaiOmittedNote,
            openaiResponse = Some ''4'', deepseekResponse = Some ''The answer is 4.'',
            modelUsed = ''hybrid'', processingTime = 10, cached = False\<rparr>"
          "[(exampleBody\<lparr>body_prompt := ''3+3''\<rparr>, 20, 30)]" exampleBody 300010 300020]
        example_first_call
  by (simp add: stdTTL_def)

lemma askPost_fresh_hybrid:
  assumes "fst (askPost w body now later s) = Inr r" and "\<not> cached r"
      and "body_modelPreference body \<noteq> Some ''openai''"
      and "body_modelPreference body \<noteq> Some ''deepseek''"
  shows "modelUsed r = ''hybrid'' \<and> openaiResponse r \<noteq> None \<and> deepseekResponse r \<noteq> None"
  using assms
  by (auto simp: askPost_def askDispatch_def Let_def split_beta
        split: option.splits sum.splits prod.splits)

text \<open>
  C7 asks that a request naming a single provider gets a result without data of the other
  provider, also when it is served from the cache. The one-shot route behaves otherwise:
  its cache key leaves the preference out. Once a request in hybrid mode has been answered
  with a fresh result, a request that differs from it only by naming OpenAI or DeepSeek,
  and that starts within the time to live, is answered from the cache with that hybrid
  result: it is marked hybrid, carries the texts of both providers, and no provider client
  is invoked for it.
\<close>

theorem ask_route_serves_hybrid_result_for_single_preference:
  assumes "fst (askPost w body t0 t0' s) = Inr r"
      and "\<not> cached r"
      and "body_modelPreference body \<noteq> Some ''openai''"
      and "body_modelPreference body \<noteq> Some ''deepseek''"
      and "m = Some ''openai'' \<or> m = Some ''deepseek''"
      and "t1 \<le> t0' + stdTTL * 1000"
  shows "(let s1 = snd (askPost w body t0 t0' s);
              second = askPost w (body\<lparr>body_modelPreference := m\<rparr>) t1 t1' s1
          in fst second = Inr (r\<lparr>cached := True\<rparr>)
           \<and> modelUsed r = ''hybrid''
           \<and> openaiResponse r \<noteq> None
           \<and> deepseekResponse r \<noteq> None
           \<and> providerCalls (snd second) = providerCalls s1)"
proof -
  have key: "askCacheKey (runtime_of w) (body\<lparr>body_modelPreference := m\<rparr>) = askCacheKey (runtime_of w) body"
    by (rule askCacheKey_ignores_preference)
  have stored: "cache_data (responseCache (snd (askPost w body t0 t0' s)))
                  (askCacheKey (runtime_of w) (body\<lparr>body_modelPreference := m\<rparr>))
                  = Some (r, t0' + stdTTL * 1000)"
    using askPost_fresh_stores [OF assms(1) assms(2)] key by simp
  show ?thesis
    unfolding Let_def
    using askPost_hit_frame [OF stored assms(6), of t1']
          askPost_fresh_hybrid [OF assms(1) assms(2) assms(3) assms(4)]
    by simp
qed

theorem ask_route_serves_hybrid_result_for_single_preference_witness:
  "fst (askPost answeringWorld (exampleBody\<lparr>body_modelPreference := Some ''openai''\<rparr>) 20 30
          (snd (askPost answeringWorld exampleBody 0 10 emptyServer))) =
     Inr \<lparr>response = ''The answer is 4.'' @ openaiOmittedNote,
          openaiResponse = Some ''4'', deepseekResponse = Some ''The answer is 4.'',
          modelUsed = ''hybrid'', processingTime = 10, cached = True\<rparr>
   \<and> providerCalls (snd (askPost answeringWorld (exampleBody\<lparr>body_modelPreference := Some ''openai''\<rparr>) 20 30
          (snd (askPost answeringWorld exampleBody 0 10 emptyServer)))) =
       providerCalls (snd (askPost answeringWorld exampleBody 0 10 emptyServer))
   \<and> providerCalls (snd (askPost answeringWorld exampleBody 0 10 emptyServer)) =
       [(OpenAI, 1, []), (DeepSeek, 1, [])]"
proof -
  have calls: "providerCalls (snd (askPost answeringWorld exampleBody 0 10 emptyServer)) =
       [(OpenAI, 1, []), (DeepSeek, 1, [])]"
    by (simp add: askPost_def askDispatch_def getOpenAIResponse_def getDeepSeekResponse_def
        backOff_client example_defs cache_get_def cache_set_def maxKeys_def
        mergeResponses_def longer_by_half_nat Let_def)
  have pref: "body_modelPreference exampleBody \<noteq> Some ''openai''"
             "body_modelPreference exampleBody \<noteq> Some ''deepseek''"
    by (simp_all add: exampleBody_def)
  have ttl: "(20::nat) \<le> 10 + stdTTL * 1000" by (simp add: stdTTL_def)
  show ?thesis
    using ask_route_serves_hybrid_result_for_single_preference
            [OF example_first_call _ pref _ ttl, of "Some ''openai''" 30] calls
    by (simp add: Let_def)
qed

text \<open>
  Without the cache the route keeps to the provider that is named: a fresh result for a
  request that names one provider comes from one call of that provider's client and
  carries no text of the other.
\<close>

lemma ask_route_fresh_single_preference:
  assumes "fst (askPost w body now later s) = Inr r" and "\<not> cached r"
      and "body_modelPreference body = Some ''openai'' \<or> body_modelPreference body = Some ''deepseek''"
  shows "openaiResponse r = None \<and> deepseekResponse r = None
       \<and> Some (modelUsed r) = body_modelPreference body
       \<and> (\<exists>n sl. providerCalls (snd (askPost w body now later s)) = providerCalls s @
             [(if body_modelPreference body = Some ''openai'' then OpenAI else DeepSeek, n, sl)])"
  using assms
  by (auto simp: askPost_def askDispatch_def Let_def split_beta
        getOpenAIResponse_calls getDeepSeekResponse_calls
        split: option.splits sum.splits prod.splits)

section \<open>Properties of the chat over a session\<close>

lemma getOpenAIResponse_result:
  "fst (getOpenAIResponse w prompt ctx options s) = fst (getOpenAIResponse w prompt ctx options s')"
  by (simp add: getOpenAIResponse_def Let_def split: sum.splits)

lemma getDeepSeekResponse_result:
  "fst (getDeepSeekResponse w prompt ctx options s) = fst (getDeepSeekResponse w prompt ctx options s')"
  by (simp add: getDeepSeekResponse_def Let_def split: sum.splits option.splits)

lemma getOpenAIResponse_ledger:
  "apiUsageLog (snd (getOpenAIResponse w prompt ctx options s)) = apiUsageLog s"
  by (simp add: getOpenAIResponse_def Let_def split: sum.splits)

lemma getDeepSeekResponse_ledger_failure:
  "fst (getDeepSeekResponse w prompt ctx options s) = Inl e \<Longrightarrow>
   apiUsageLog (snd (getDeepSeekResponse w prompt ctx options s)) = apiUsageLog s"
  by (simp add: getDeepSeekResponse_def Let_def split: sum.splits option.splits if_splits)

lemma getDeepSeekResponse_ledger_success:
  "fst (getDeepSeekResponse w prompt ctx (noOptions\<lparr>opt_userId := Some userId\<rparr>) s) = Inr t \<Longrightarrow>
   \<exists>tokens. apiUsageLog (snd (getDeepSeekResponse w prompt ctx (noOptions\<lparr>opt_userId := Some userId\<rparr>) s)) =
     apiUsageLog s @ [\<lparr>usage_userId = userId, usage_endpoint = ''chat/completions'',
                       usage_model = ''deepseek-v3'', tokensUsed = tokens,
                       cost = jsMultiply (jsDivide (Finite (of_nat tokens)) (Finite 1000))
                                 (Finite (costPerToken (MODEL_CAPABILITIES DeepseekV3)))\<rparr>]"
  by (auto simp: getDeepSeekResponse_def Let_def trackUsage_def deepseekModel_def noOptions_def
        split: sum.splits option.splits if_splits)

lemma deliver_result:
  assumes "\<not> isNew doc" and "\<not> list_ex (\<lambda>m. msg_content m = []) (messages doc)" and "ws_open ws"
  shows "fst (deliver ws doc t label sent s) =
           (if t = [] then sent @ [ProcessingFailed (SaveFailed ContentRequired)]
            else sent @ [MessageEvent t label (conv_sessionId doc), TypingIndicator False])"
  using assms by (simp add: deliver_def save_def push_def send_def Let_def)

lemma deliver_ledger: "apiUsageLog (snd (deliver ws doc t label sent s)) = apiUsageLog s"
  by (simp add: deliver_def save_def Let_def split: sum.splits prod.splits)

lemma first_save:
  assumes "message \<noteq> []"
      and "case conversations s sid of
             None \<Rightarrow> True
           | Some (owner, ms) \<Rightarrow> owner = userId \<and> \<not> list_ex (\<lambda>m. msg_content m = []) ms"
  shows "\<exists>doc s0.
           save (push \<lparr>msg_content = message, msg_role = ''user'', msg_modelUsed = None\<rparr>
                   (case findOne userId sid s of
                      Some found \<Rightarrow> found
                    | None \<Rightarrow> \<lparr>isNew = True, conv_userId = userId, conv_sessionId = sid, messages = []\<rparr>)) s
             = Inr (doc, s0)
         \<and> \<not> isNew doc \<and> conv_sessionId doc = sid
         \<and> \<not> list_ex (\<lambda>m. msg_content m = []) (messages doc)
         \<and> apiUsageLog s0 = apiUsageLog s"
  using assms
  by (auto simp: findOne_def save_def push_def split: option.splits)

text \<open>
  C1, as amended. Take a chat message on an open session of an authenticated user who is
  below the monthly allowance, for which the model resolves to hybrid, with a session id
  that is free or belongs to a conversation of this user. When the DeepSeek client fails
  and the OpenAI client succeeds with a text that is not empty, the handler does not fail:
  after the acknowledgement and the typing indicator it sends OpenAI's text as the message,
  labelled openai, and switches the indicator off; no usage record is written, since the
  OpenAI client records no usage. When the OpenAI client fails and the DeepSeek client
  succeeds with a text that is not empty, it sends DeepSeek's text, labelled deepseek, and
  exactly one usage record is written, for this user and the DeepSeek model. When the text
  of the surviving client is empty, the answer cannot be stored, because a message must
  have content: the handler then reports that failure instead of a message and leaves the
  typing indicator on; the usage record of a DeepSeek answer is written all the same.
\<close>

theorem session_hybrid_partial_failure:
  assumes "ws_userId ws = Some userId" and "userId \<noteq> []"
      and "payload_message payload = Some message" and "message \<noteq> []"
      and "users s userId = Some u"
      and "used (quota u) < monthly (quota u)"
      and "orText (orString (payload_modelPreference payload) (defaultModel u)) ''hybrid'' = ''hybrid''"
      and "ws_open ws"
      and "case conversations s (orText (payload_sessionId payload) (ws_sessionId ws)) of
             None \<Rightarrow> True
           | Some (owner, ms) \<Rightarrow> owner = userId \<and> \<not> list_ex (\<lambda>m. msg_content m = []) ms"
  shows "(let ctx = payload_context payload;
              sessionId = orText (payload_sessionId payload) (ws_sessionId ws);
              deepseekResult = fst (getDeepSeekResponse w message ctx (noOptions\<lparr>opt_userId := Some userId\<rparr>) s);
              openaiResult = fst (getOpenAIResponse w message ctx noOptions s);
              (sent, s') = handleChatMessage w ws payload s
          in (\<forall>e t. deepseekResult = Inl e \<and> openaiResult = Inr t \<longrightarrow>
                (t \<noteq> [] \<longrightarrow>
                   sent = [MessageReceived, TypingIndicator True,
                           MessageEvent t ''openai'' sessionId, TypingIndicator False])
                \<and> (t = [] \<longrightarrow>
                   sent = [MessageReceived, TypingIndicator True,
                           ProcessingFailed (SaveFailed ContentRequired)])
                \<and> apiUsageLog s' = apiUsageLog s)
           \<and> (\<forall>e t. openaiResult = Inl e \<and> deepseekResult = Inr t \<longrightarrow>
                (t \<noteq> [] \<longrightarrow>
                   sent = [MessageReceived, TypingIndicator True,
                           MessageEvent t ''deepseek'' sessionId, TypingIndicator False])
                \<and> (t = [] \<longrightarrow>
                   sent = [MessageReceived, TypingIndicator True,
                           ProcessingFailed (SaveFailed ContentRequired)])
                \<and> (\<exists>tokens. apiUsageLog s' = apiUsageLog s @
                      [\<lparr>usage_userId = userId, usage_endpoint = ''chat/completions'',
                        usage_model = ''deepseek-v3'', tokensUsed = tokens,
                        cost = jsMultiply (jsDivide (Finite (of_nat tokens)) (Finite 1000))
                                 (Finite (costPerToken (MODEL_CAPABILITIES DeepseekV3)))\<rparr>])))"
proof -
  let ?sid = "orText (payload_sessionId payload) (ws_sessionId ws)"
  let ?conv = "case findOne userId ?sid s of
                 Some found \<Rightarrow> found
               | None \<Rightarrow> \<lparr>isNew = True, conv_userId = userId, conv_sessionId = ?sid, messages = []\<rparr>"
  obtain doc s0 where sv:
      "save (push \<lparr>msg_content = message, msg_role = ''user'', msg_modelUsed = None\<rparr> ?conv) s = Inr (doc, s0)"
      and doc: "\<not> isNew doc" "conv_sessionId doc = ?sid"
               "\<not> list_ex (\<lambda>m. msg_content m = []) (messages doc)"
      and l0: "apiUsageLog s0 = apiUsageLog s"
    using first_save [OF assms(4) assms(9)] by blast
  let ?opts = "noOptions\<lparr>opt_userId := Some userId\<rparr>"
  let ?ctx = "payload_context payload"
  let ?d = "getDeepSeekResponse w message ?ctx ?opts s0"
  let ?o = "getOpenAIResponse w message ?ctx noOptions (snd ?d)"
  let ?sent0 = "[MessageReceived, TypingIndicator True]"
  have rd: "fst ?d = fst (getDeepSeekResponse w message ?ctx ?opts s)"
    by (rule getDeepSeekResponse_result)
  have ro: "fst ?o = fst (getOpenAIResponse w message ?ctx noOptions s)"
    by (rule getOpenAIResponse_result)
  have lo: "apiUsageLog (snd ?o) = apiUsageLog (snd ?d)"
    by (rule getOpenAIResponse_ledger)
  have unfold: "handleChatMessage w ws payload s =
      (case (fst ?d, fst ?o) of
         (Inr deepseekText, Inr openaiText) \<Rightarrow>
           deliver ws doc (wsMergeResponses deepseekText openaiText) ''hybrid (deepseek + openai)''
             ?sent0 (snd ?o)
       | (Inr deepseekText, Inl e) \<Rightarrow> deliver ws doc deepseekText ''deepseek'' ?sent0 (snd ?o)
       | (Inl e, Inr openaiText) \<Rightarrow> deliver ws doc openaiText ''openai'' ?sent0 (snd ?o)
       | (Inl e, Inl e') \<Rightarrow>
           (?sent0 @ [ErrorEvent ''All AI models failed to respond''], snd ?o))"
    using assms(1-3,5-8) assms(4) sv
    by (simp add: handleChatMessage_def Let_def send_def split_beta split: sum.splits)
  note dr = deliver_result [OF doc(1) doc(3) assms(8)]
  have case1: "\<And>e t. fst ?d = Inl e \<Longrightarrow> fst ?o = Inr t \<Longrightarrow>
      fst (handleChatMessage w ws payload s) =
        (if t = [] then ?sent0 @ [ProcessingFailed (SaveFailed ContentRequired)]
         else ?sent0 @ [MessageEvent t ''openai'' ?sid, TypingIndicator False])
      \<and> apiUsageLog (snd (handleChatMessage w ws payload s)) = apiUsageLog s"
    using lo getDeepSeekResponse_ledger_failure [of w message ?ctx ?opts s0] l0 doc(2)
    by (simp add: unfold dr deliver_ledger)
  have case2: "\<And>e t. fst ?o = Inl e \<Longrightarrow> fst ?d = Inr t \<Longrightarrow>
      fst (handleChatMessage w ws payload s) =
        (if t = [] then ?sent0 @ [ProcessingFailed (SaveFailed ContentRequired)]
         else ?sent0 @ [MessageEvent t ''deepseek'' ?sid, TypingIndicator False])
      \<and> (\<exists>tokens. apiUsageLog (snd (handleChatMessage w ws payload s)) = apiUsageLog s @
                      [\<lparr>usage_userId = userId, usage_endpoint = ''chat/completions'',
                        usage_model = ''deepseek-v3'', tokensUsed = tokens,
                        cost = jsMultiply (jsDivide (Finite (of_nat tokens)) (Finite 1000))
                                 (Finite (costPerToken (MODEL_CAPABILITIES DeepseekV3)))\<rparr>])"
    using lo getDeepSeekResponse_ledger_success [of w message ?ctx userId s0] l0 doc(2)
    by (simp add: unfold dr deliver_ledger)
  show ?thesis
    unfolding Let_def split_beta
    using case1 case2 rd ro by auto
qed

lemmas session_example_defs =
  exampleClient_def examplePayload_def exampleServer_def exampleUser_def emptyServer_def
  emptyCache_def exampleReply_def noOptions_def

lemmas client_eval_defs =
  getOpenAIResponse_def getDeepSeekResponse_def backOff_client create_eval upt_small
  trackUsage_def deepseekModel_def Let_def

lemmas session_eval_defs =
  handleChatMessage_def deliver_def save_def push_def findOne_def send_def

theorem session_hybrid_partial_failure_witness:
  "fst (getOpenAIResponse openaiDownWorld ''2+2'' None noOptions (exampleServer 0)) =
     Inl (OpenAIApiError (HttpStatus 503))
   \<and> fst (getDeepSeekResponse openaiDownWorld ''2+2'' None (noOptions\<lparr>opt_userId := Some ''U''\<rparr>)
          (exampleServer 0)) = Inr ''The answer is 4.''
   \<and> fst (handleChatMessage openaiDownWorld exampleClient examplePayload (exampleServer 0)) =
       [MessageReceived, TypingIndicator True,
        MessageEvent ''The answer is 4.'' ''deepseek'' ''S'', TypingIndicator False]
   \<and> apiUsageLog (snd (handleChatMessage openaiDownWorld exampleClient examplePayload (exampleServer 0))) =
       [\<lparr>usage_userId = ''U'', usage_endpoint = ''chat/completions'',
         usage_model = ''deepseek-v3'', tokensUsed = 50,
         cost = jsMultiply (jsDivide (Finite 50) (Finite 1000))
                    (Finite (costPerToken (MODEL_CAPABILITIES DeepseekV3)))\<rparr>]
   \<and> fst (getDeepSeekResponse silentOpenAIWorld ''2+2'' None (noOptions\<lparr>opt_userId := Some ''U''\<rparr>)
          (exampleServer 0)) = Inl (DeepSeekApiError Timeout)
   \<and> fst (getOpenAIResponse silentOpenAIWorld ''2+2'' None noOptions (exampleServer 0)) = Inr []
   \<and> fst (handleChatMessage silentOpenAIWorld exampleClient examplePayload (exampleServer 0)) =
       [MessageReceived, TypingIndicator True, ProcessingFailed (SaveFailed ContentRequired)]"
proof -
  have o: "fst (getOpenAIResponse openaiDownWorld ''2+2'' None noOptions (exampleServer 0)) =
     Inl (OpenAIApiError (HttpStatus 503))"
    by (simp add: client_eval_defs openaiDownWorld_def)
  have d: "fst (getDeepSeekResponse openaiDownWorld ''2+2'' None (noOptions\<lparr>opt_userId := Some ''U''\<rparr>)
          (exampleServer 0)) = Inr ''The answer is 4.''"
    by (simp add: client_eval_defs openaiDownWorld_def session_example_defs)
  have l: "apiUsageLog (snd (handleChatMessage openaiDownWorld exampleClient examplePayload (exampleServer 0))) =
       [\<lparr>usage_userId = ''U'', usage_endpoint = ''chat/completions'',
         usage_model = ''deepseek-v3'', tokensUsed = 50,
         cost = jsMultiply (jsDivide (Finite 50) (Finite 1000))
                    (Finite (costPerToken (MODEL_CAPABILITIES DeepseekV3)))\<rparr>]"
    by (simp add: session_eval_defs client_eval_defs openaiDownWorld_def session_example_defs)
  have d': "fst (getDeepSeekResponse silentOpenAIWorld ''2+2'' None (noOptions\<lparr>opt_userId := Some ''U''\<rparr>)
          (exampleServer 0)) = Inl (DeepSeekApiError Timeout)"
    by (simp add: client_eval_defs silentOpenAIWorld_def session_example_defs)
  have o': "fst (getOpenAIResponse silentOpenAIWorld ''2+2'' None noOptions (exampleServer 0)) = Inr []"
    by (simp add: client_eval_defs silentOpenAIWorld_def)
  have h: "ws_userId exampleClient = Some ''U''" "payload_message examplePayload = Some ''2+2''"
          "users (exampleServer 0) ''U'' = Some (exampleUser 0)"
          "used (quota (exampleUser 0)) < monthly (quota (exampleUser 0))"
          "orText (orString (payload_modelPreference examplePayload) (defaultModel (exampleUser 0))) ''hybrid''
             = ''hybrid''"
          "ws_open exampleClient"
          "case conversations (exampleServer 0) (orText (payload_sessionId examplePayload) (ws_sessionId exampleClient)) of
             None \<Rightarrow> True
           | Some (owner, ms) \<Rightarrow> owner = ''U'' \<and> \<not> list_ex (\<lambda>m. msg_content m = []) ms"
    by (simp_all add: session_example_defs)
  have sid: "orText (payload_sessionId examplePayload) (ws_sessionId exampleClient) = ''S''"
    by (simp add: session_example_defs)
  show ?thesis
    using session_hybrid_partial_failure [OF h(1) _ h(2) _ h(3-7), of openaiDownWorld]
          session_hybrid_partial_failure [OF h(1) _ h(2) _ h(3-7), of silentOpenAIWorld]
          o d l d' o'
    by (simp add: sid examplePayload_def exampleClient_def Let_def split_beta)
qed

theorem session_hybrid_openai_survivor_counterexample:
  "fst (getDeepSeekResponse deepseekDownWorld ''2+2'' None (noOptions\<lparr>opt_userId := Some ''U''\<rparr>)
          (exampleServer 0)) = Inl (DeepSeekApiError Timeout)
   \<and> fst (getOpenAIResponse deepseekDownWorld ''2+2'' None noOptions (exampleServer 0)) = Inr ''4''
   \<and> fst (handleChatMessage deepseekDownWorld exampleClient examplePayload (exampleServer 0)) =
       [MessageReceived, TypingIndicator True, MessageEvent ''4'' ''openai'' ''S'',
        TypingIndicator False]
   \<and> apiUsageLog (snd (handleChatMessage deepseekDownWorld exampleClient examplePayload (exampleServer 0))) = []"
  by (simp add: session_eval_defs client_eval_defs deepseekDownWorld_def session_example_defs)

text \<open>
  A session id that belongs to a conversation of another user makes the handler fail
  before any client is called: the new document cannot be saved.
\<close>

lemma session_id_of_another_user:
  "handleChatMessage answeringWorld exampleClient examplePayload
     ((exampleServer 0)\<lparr>conversations := [''S'' \<mapsto> (''V'', [])]\<rparr>) =
   ([ProcessingFailed (SaveFailed DuplicateSessionId)],
    (exampleServer 0)\<lparr>conversations := [''S'' \<mapsto> (''V'', [])]\<rparr>)"
  by (simp add: session_eval_defs session_example_defs)

text \<open>
  The one-shot route joins the two client calls with \<open>Promise.all\<close>: there a request in
  hybrid mode that misses the cache fails as soon as one client fails.
\<close>

lemma ask_route_hybrid_fails_with_one_client:
  assumes "body_modelPreference body \<noteq> Some ''openai''"
      and "body_modelPreference body \<noteq> Some ''deepseek''"
      and "fst (cache_get (responseCache s) (askCacheKey (runtime_of w) body) now) = None"
      and "isl (fst (getOpenAIResponse w (body_prompt body) (body_context body)
                  (noOptions\<lparr>opt_temperature := Some (orNumber (body_temperature body) (7 / 10)),
                             opt_maxTokens := Some (orNumber (body_maxTokens body) 4000)\<rparr>) s))
           \<or> isl (fst (getDeepSeekResponse w (body_prompt body) (body_context body)
                  (noOptions\<lparr>opt_temperature := Some (orNumber (body_temperature body) (7 / 10)),
                             opt_maxTokens := Some (orNumber (body_maxTokens body) 4000)\<rparr>) s))"
  shows "isl (fst (askPost w body now later s))"
proof -
  let ?opts = "noOptions\<lparr>opt_temperature := Some (orNumber (body_temperature body) (7 / 10)),
                          opt_maxTokens := Some (orNumber (body_maxTokens body) 4000)\<rparr>"
  let ?s0 = "s\<lparr>responseCache := snd (cache_get (responseCache s) (askCacheKey (runtime_of w) body) now)\<rparr>"
  let ?o = "getOpenAIResponse w (body_prompt body) (body_context body) ?opts ?s0"
  let ?d = "getDeepSeekResponse w (body_prompt body) (body_context body) ?opts (snd ?o)"
  have o: "fst ?o = fst (getOpenAIResponse w (body_prompt body) (body_context body) ?opts s)"
    by (rule getOpenAIResponse_result)
  have d: "fst ?d = fst (getDeepSeekResponse w (body_prompt body) (body_context body) ?opts s)"
    by (rule getDeepSeekResponse_result)
  have "isl (fst ?o) \<or> isl (fst ?d)" using assms(4) o d by simp
  then have "isl (promiseAll (fst ?o) (fst ?d))"
    by (cases "fst ?o"; cases "fst ?d") simp_all
  then have "isl (fst (askDispatch w body ?opts now later ?s0))"
    using assms(1,2) by (auto simp: askDispatch_def split_beta split: sum.splits)
  then show ?thesis
    using assms(3) by (auto simp: askPost_def Let_def split_beta split: option.splits sum.splits)
qed

lemma ask_route_partial_failure_example:
  "fst (askPost deepseekDownWorld exampleBody 0 10 emptyServer) = Inl (DeepSeekApiError Timeout)
   \<and> fst (askPost openaiDownWorld exampleBody 0 10 emptyServer) = Inl (OpenAIApiError (HttpStatus 503))"
  by (simp add: askPost_def askDispatch_def client_eval_defs deepseekDownWorld_def openaiDownWorld_def
        example_defs cache_get_def)

section \<open>Properties of the quota check\<close>

lemma checkQuota_calls: "providerCalls (snd (checkQuota reqUser now s)) = providerCalls s"
  by (simp add: checkQuota_def Let_def split: option.splits)

lemma first_of_next_month:
  assumes "getMonth now < 12"
  shows "newDate (getFullYear now) (getMonth now + 1) 1 =
           \<lparr>getFullYear = (if getMonth now = 11 then getFullYear now + 1 else getFullYear now),
            getMonth = (if getMonth now = 11 then 0 else getMonth now + 1),
            getDate = 1, msOfDay = 0\<rparr>"
  using assms by (auto simp: newDate_def)

text \<open>
  C3, as amended. For an existing user, checkQuota first looks at the reset instant: when
  the current instant is past it, the stored quota gets \<open>used\<close> = 0 and the reset instant
  moves to the first instant of the month after the current one (an instant later than
  now and not later than any instant of that month); otherwise nothing is stored. It then
  rejects with status 403 exactly when \<open>used\<close>, after the reset, has reached the monthly
  allowance, and lets the request through exactly when \<open>used\<close> is below the allowance,
  however many tokens the request is going to consume. The check invokes no provider, and
  a route guarded by it does not run its handler after a rejection.
\<close>

theorem checkQuota_resets_then_rejects_at_allowance:
  assumes "users s userId = Some u" and "getMonth now < 12"
  shows "(let expired = date_less (resetDate (quota u)) now;
              result = fst (checkQuota (Some userId) now s);
              s1 = snd (checkQuota (Some userId) now s);
              first = \<lparr>getFullYear = (if getMonth now = 11 then getFullYear now + 1 else getFullYear now),
                       getMonth = (if getMonth now = 11 then 0 else getMonth now + 1),
                       getDate = 1, msOfDay = 0\<rparr>
          in (expired \<longrightarrow>
                users s1 userId = Some (u\<lparr>quota := (quota u)\<lparr>used := 0, resetDate := first\<rparr>\<rparr>))
           \<and> date_less now first
           \<and> (\<forall>d. getFullYear d = getFullYear first \<and> getMonth d = getMonth first \<and> 1 \<le> getDate d
                  \<longrightarrow> \<not> date_less d first)
           \<and> (\<not> expired \<longrightarrow> s1 = s)
           \<and> (result = Respond 403 ''Monthly usage quota exceeded''
                 \<longleftrightarrow> monthly (quota u) \<le> (if expired then 0 else used (quota u)))
           \<and> (result = Next \<longleftrightarrow> (if expired then 0 else used (quota u)) < monthly (quota u))
           \<and> providerCalls s1 = providerCalls s
           \<and> (result \<noteq> Next \<longrightarrow>
                quotaGuarded (Some userId) now rest s =
                  (Inl (403, ''Monthly usage quota exceeded''), s1)))"
proof -
  let ?first = "\<lparr>getFullYear = (if getMonth now = 11 then getFullYear now + 1 else getFullYear now),
                       getMonth = (if getMonth now = 11 then 0 else getMonth now + 1),
                       getDate = 1, msOfDay = 0\<rparr>"
  have nd: "newDate (getFullYear now) (getMonth now + 1) 1 = ?first"
    by (rule first_of_next_month [OF assms(2)])
  have 1: "date_less (resetDate (quota u)) now \<longrightarrow>
             users (snd (checkQuota (Some userId) now s)) userId =
               Some (u\<lparr>quota := (quota u)\<lparr>used := 0, resetDate := ?first\<rparr>\<rparr>)"
    using assms(1) nd by (simp add: checkQuota_def Let_def)
  have 2: "date_less now ?first"
    using assms(2) by (auto simp: date_less_def)
  have 3: "\<forall>d. getFullYear d = getFullYear ?first \<and> getMonth d = getMonth ?first \<and> 1 \<le> getDate d
                  \<longrightarrow> \<not> date_less d ?first"
    by (auto simp: date_less_def)
  have 4: "\<not> date_less (resetDate (quota u)) now \<longrightarrow> snd (checkQuota (Some userId) now s) = s"
    using assms(1) by (simp add: checkQuota_def Let_def)
  have 5: "fst (checkQuota (Some userId) now s) = Respond 403 ''Monthly usage quota exceeded''
             \<longleftrightarrow> monthly (quota u) \<le> (if date_less (resetDate (quota u)) now then 0 else used (quota u))"
    using assms(1) by (simp add: checkQuota_def Let_def)
  have 6: "fst (checkQuota (Some userId) now s) = Next
             \<longleftrightarrow> (if date_less (resetDate (quota u)) now then 0 else used (quota u)) < monthly (quota u)"
    using assms(1) by (auto simp: checkQuota_def Let_def)
  have 7: "fst (checkQuota (Some userId) now s) \<noteq> Next \<longrightarrow>
                quotaGuarded (Some userId) now rest s =
                  (Inl (403, ''Monthly usage quota exceeded''), snd (checkQuota (Some userId) now s))"
    using assms(1) by (auto simp: quotaGuarded_def checkQuota_def Let_def)
  show ?thesis
    unfolding Let_def
    using 1 2 3 4 5 6 7 checkQuota_calls [of "Some userId" now s] by blast
qed

theorem checkQuota_resets_then_rejects_at_allowance_witness:
  "date_less (resetDate (quota (exampleUser 100)))
     \<lparr>getFullYear = 2025, getMonth = 0, getDate = 15, msOfDay = 0\<rparr>
   \<and> fst (checkQuota (Some ''U'') \<lparr>getFullYear = 2025, getMonth = 0, getDate = 15, msOfDay = 0\<rparr>
            (exampleServer 100)) = Next
   \<and> users (snd (checkQuota (Some ''U'') \<lparr>getFullYear = 2025, getMonth = 0, getDate = 15, msOfDay = 0\<rparr>
            (exampleServer 100))) ''U'' =
       Some \<lparr>quota = \<lparr>monthly = 100, used = 0,
                        resetDate = \<lparr>getFullYear = 2025, getMonth = 1, getDate = 1, msOfDay = 0\<rparr>\<rparr>,
              defaultModel = Some ''deepseek-v3''\<rparr>
   \<and> \<not> date_less (resetDate (quota (exampleUser 100)))
         \<lparr>getFullYear = 2024, getMonth = 11, getDate = 31, msOfDay = 0\<rparr>
   \<and> fst (checkQuota (Some ''U'') \<lparr>getFullYear = 2024, getMonth = 11, getDate = 31, msOfDay = 0\<rparr>
            (exampleServer 100)) = Respond 403 ''Monthly usage quota exceeded''
   \<and> fst (quotaGuarded (Some ''U'') \<lparr>getFullYear = 2024, getMonth = 11, getDate = 31, msOfDay = 0\<rparr>
            (getDeepSeekResponse answeringWorld ''2+2'' None (noOptions\<lparr>opt_userId := Some ''U''\<rparr>))
            (exampleServer 100)) = Inl (403, ''Monthly usage quota exceeded'')
   \<and> providerCalls (snd (quotaGuarded (Some ''U'') \<lparr>getFullYear = 2024, getMonth = 11, getDate = 31, msOfDay = 0\<rparr>
            (getDeepSeekResponse answeringWorld ''2+2'' None (noOptions\<lparr>opt_userId := Some ''U''\<rparr>))
            (exampleServer 100))) = []"
proof -
  have u: "users (exampleServer 100) ''U'' = Some (exampleUser 100)"
    by (simp add: exampleServer_def emptyServer_def)
  have pc: "providerCalls (exampleServer 100) = []"
    by (simp add: exampleServer_def emptyServer_def)
  show ?thesis
    using checkQuota_resets_then_rejects_at_allowance
            [OF u, of "\<lparr>getFullYear = 2025, getMonth = 0, getDate = 15, msOfDay = 0\<rparr>"
               "getDeepSeekResponse answeringWorld ''2+2'' None (noOptions\<lparr>opt_userId := Some ''U''\<rparr>)"]
          checkQuota_resets_then_rejects_at_allowance
            [OF u, of "\<lparr>getFullYear = 2024, getMonth = 11, getDate = 31, msOfDay = 0\<rparr>"
               "getDeepSeekResponse answeringWorld ''2+2'' None (noOptions\<lparr>opt_userId := Some ''U''\<rparr>)"]
          pc
    by (simp add: Let_def exampleUser_def date_less_def)
qed

theorem checkQuota_admits_request_over_allowance_counterexample:
  "fst (checkQuota (Some ''U'') \<lparr>getFullYear = 2024, getMonth = 11, getDate = 31, msOfDay = 0\<rparr>
          (exampleServer 99)) = Next
   \<and> map_option (\<lambda>u. (used (quota u), monthly (quota u))) (users (exampleServer 99) ''U'') = Some (99, 100)
   \<and> 99 + reply_total_tokens exampleReply > 100
   \<and> fst (quotaGuarded (Some ''U'') \<lparr>getFullYear = 2024, getMonth = 11, getDate = 31, msOfDay = 0\<rparr>
            (getDeepSeekResponse answeringWorld ''2+2'' None (noOptions\<lparr>opt_userId := Some ''U''\<rparr>))
            (exampleServer 99)) = Inr (Inr ''The answer is 4.'')
   \<and> providerCalls (snd (quotaGuarded (Some ''U'') \<lparr>getFullYear = 2024, getMonth = 11, getDate = 31, msOfDay = 0\<rparr>
            (getDeepSeekResponse answeringWorld ''2+2'' None (noOptions\<lparr>opt_userId := Some ''U''\<rparr>))
            (exampleServer 99))) = [(DeepSeek, 1, [])]
   \<and> map_option (\<lambda>u. (used (quota u), monthly (quota u)))
        (users (snd (quotaGuarded (Some ''U'') \<lparr>getFullYear = 2024, getMonth = 11, getDate = 31, msOfDay = 0\<rparr>
            (getDeepSeekResponse answeringWorld ''2+2'' None (noOptions\<lparr>opt_userId := Some ''U''\<rparr>))
            (exampleServer 99))) ''U'') = Some (149, 100)"
  by (simp add: quotaGuarded_def checkQuota_def client_eval_defs answeringWorld_def
        session_example_defs date_less_def)

text \<open>
  The session handler has its own check, without the reset: it rejects a message whenever
  the stored \<open>used\<close> has reached the allowance, whatever the reset instant.
\<close>

lemma session_quota_check_without_reset:
  assumes "ws_userId ws = Some userId" and "userId \<noteq> []"
      and "payload_message payload = Some message" and "message \<noteq> []"
      and "users s userId = Some u"
      and "monthly (quota u) \<le> used (quota u)"
      and "ws_open ws"
  shows "handleChatMessage w ws payload s = ([ErrorEvent ''Monthly usage quota exceeded''], s)"
  using assms by (simp add: handleChatMessage_def send_def)

section \<open>Properties of merged streaming\<close>

lemma orderly_iff:
  "orderly p (ev # evs) =
     (case ev of Data q chunk \<Rightarrow> orderly p evs
      | _ \<Rightarrow> if source ev = p then quiet p evs else orderly p evs)"
  by (cases ev) (simp_all add: quiet_def)

lemma quiet_orderly: "quiet p evs \<Longrightarrow> orderly p evs"
  by (induction evs) (auto simp: quiet_def orderly_iff split: stream_event.splits)

lemma nonFinalWrites_append:
  "nonFinalWrites (xs @ ys) = (nonFinalWrites xs \<and> nonFinalWrites ys)"
  by (simp add: nonFinalWrites_def)

lemma checkBothDone_fields:
  "openaiDone (checkBothDone st) = openaiDone st"
  "deepseekDone (checkBothDone st) = deepseekDone st"
  "openaiBuffer (checkBothDone st) = openaiBuffer st"
  "deepseekBuffer (checkBothDone st) = deepseekBuffer st"
  "openaiListening (checkBothDone st) = openaiListening st"
  "deepseekListening (checkBothDone st) = deepseekListening st"
  by (simp_all add: checkBothDone_def)

lemma onEvent_listening:
  "openaiListening (onEvent st ev) = openaiListening st"
  "deepseekListening (onEvent st ev) = deepseekListening st"
  by (cases ev; cases "source ev"; simp add: checkBothDone_fields Let_def)+

lemma onEvent_ignored:
  "\<not> listening (source ev) st \<Longrightarrow> onEvent st ev = st"
  by (cases ev; cases "source ev"; simp)

lemma settled_step:
  assumes "settled st" and "listening (source ev) st \<longrightarrow> \<not> finished (source ev) st"
  shows "settled (onEvent st ev)"
proof (cases "listening (source ev) st")
  case False
  then show ?thesis using assms(1) by (simp add: onEvent_ignored)
next
  case True
  then have nf: "\<not> finished (source ev) st" using assms(2) by simp
  then have nb: "\<not> (openaiDone st \<and> deepseekDone st)" by (cases "source ev") auto
  from assms(1) nb obtain pre where pre: "resCalls st = Write startingEvent # pre" "nonFinalWrites pre"
    by (auto simp: settled_def)
  show ?thesis
    using True nf pre
    by (cases ev; cases "source ev")
       (auto simp: settled_def checkBothDone_def Let_def nonFinalWrites_def)
qed


lemma onEvent_finished:
  "finished p (onEvent st ev) =
     (finished p st \<or> (listening p st \<and> source ev = p \<and> terminal ev))"
  by (cases ev; cases "source ev"; cases p; simp add: checkBothDone_fields Let_def)

lemma onEvent_listening_p: "listening p (onEvent st ev) = listening p st"
  by (cases p) (simp_all add: onEvent_listening)

lemma awaits_step:
  assumes "awaits p st (ev # evs)"
  shows "(source ev = p \<longrightarrow> listening p st \<longrightarrow> \<not> finished p st) \<and> awaits p (onEvent st ev) evs"
proof (cases "listening p st")
  case False
  then show ?thesis by (simp add: awaits_def onEvent_listening_p)
next
  case lis: True
  show ?thesis
  proof (cases "finished p st")
    case True
    then show ?thesis
      using assms lis by (auto simp: awaits_def quiet_def onEvent_listening_p onEvent_finished)
  next
    case False
    then have ord: "orderly p (ev # evs)" using assms lis by (simp add: awaits_def)
    show ?thesis
      using False lis ord
      by (cases ev)
         (auto simp: awaits_def onEvent_listening_p onEvent_finished quiet_def intro: quiet_orderly)
  qed
qed

lemma settled_run:
  "settled st \<Longrightarrow> awaits OpenAI st evs \<Longrightarrow> awaits DeepSeek st evs \<Longrightarrow>
   settled (foldl onEvent st evs)"
proof (induction evs arbitrary: st)
  case Nil
  then show ?case by simp
next
  case (Cons ev evs)
  have o: "(source ev = OpenAI \<longrightarrow> listening OpenAI st \<longrightarrow> \<not> finished OpenAI st)"
          "awaits OpenAI (onEvent st ev) evs"
    using awaits_step [OF Cons.prems(2)] by simp_all
  have d: "(source ev = DeepSeek \<longrightarrow> listening DeepSeek st \<longrightarrow> \<not> finished DeepSeek st)"
          "awaits DeepSeek (onEvent st ev) evs"
    using awaits_step [OF Cons.prems(3)] by simp_all
  have "listening (source ev) st \<longrightarrow> \<not> finished (source ev) st"
    using o(1) d(1) by (cases "source ev") simp_all
  then have "settled (onEvent st ev)" using Cons.prems(1) by (rule settled_step [rotated])
  then show ?case using Cons.IH o(2) d(2) by simp
qed

lemma run_listening:
  "listening p (foldl onEvent st evs) = listening p st"
  by (induction evs arbitrary: st) (simp_all add: onEvent_listening_p)

lemma run_finished:
  "finished p (foldl onEvent st evs) =
     (finished p st \<or> (listening p st \<and> (\<exists>ev \<in> set evs. source ev = p \<and> terminal ev)))"
  by (induction evs arbitrary: st) (auto simp: onEvent_finished onEvent_listening_p)

lemma onEvent_buffers:
  "openaiBuffer (onEvent st ev) =
     openaiBuffer st @ (if openaiListening st then accumulated OpenAI [ev] else [])"
  "deepseekBuffer (onEvent st ev) =
     deepseekBuffer st @ (if deepseekListening st then accumulated DeepSeek [ev] else [])"
  by (cases ev; cases "source ev"; simp add: checkBothDone_fields Let_def)+

lemma accumulated_Cons: "accumulated p (ev # evs) = accumulated p [ev] @ accumulated p evs"
  by (cases ev) simp_all

lemma accumulated_append: "accumulated p (xs @ ys) = accumulated p xs @ accumulated p ys"
proof (induction xs)
  case Nil
  then show ?case by simp
next
  case (Cons ev xs)
  then show ?case by (cases ev) simp_all
qed

lemma run_buffers:
  "openaiBuffer (foldl onEvent st evs) =
     openaiBuffer st @ (if openaiListening st then accumulated OpenAI evs else [])"
  "deepseekBuffer (foldl onEvent st evs) =
     deepseekBuffer st @ (if deepseekListening st then accumulated DeepSeek evs else [])"
proof (induction evs arbitrary: st)
  case Nil
  { case 1 show ?case by simp }
  { case 2 show ?case by simp }
next
  case (Cons ev evs)
  { case 1 show ?case
      using Cons.IH(1) [of "onEvent st ev"] accumulated_Cons [of OpenAI ev evs]
      by (simp add: onEvent_buffers onEvent_listening) }
  { case 2 show ?case
      using Cons.IH(2) [of "onEvent st ev"] accumulated_Cons [of DeepSeek ev evs]
      by (simp add: onEvent_buffers onEvent_listening) }
qed


lemma quiet_append: "quiet p (xs @ ys) = (quiet p xs \<and> quiet p ys)"
  by (simp add: quiet_def)

lemma orderly_append:
  "orderly p (xs @ ys) \<Longrightarrow>
   orderly p xs \<and> (if \<exists>ev \<in> set xs. source ev = p \<and> terminal ev then quiet p ys else orderly p ys)"
proof (induction xs)
  case Nil
  then show ?case by simp
next
  case (Cons ev xs)
  show ?case
  proof (cases "source ev = p \<and> terminal ev")
    case True
    then have "quiet p (xs @ ys)" using Cons.prems by (cases ev) (auto simp: quiet_def)
    then show ?thesis using True by (cases ev) (auto simp: quiet_append quiet_def)
  next
    case False
    then have "orderly p (xs @ ys)" using Cons.prems by (cases ev) (auto split: if_splits)
    then have ih: "orderly p xs"
      "if \<exists>e \<in> set xs. source e = p \<and> terminal e then quiet p ys else orderly p ys"
      using Cons.IH by simp_all
    have c: "(\<exists>e \<in> set (ev # xs). source e = p \<and> terminal e) = (\<exists>e \<in> set xs. source e = p \<and> terminal e)"
      using False by auto
    have "orderly p (ev # xs)" using False ih(1) by (cases ev) auto
    then show ?thesis using ih(2) unfolding c by simp
  qed
qed

lemma error_terminal: "Error p \<in> set evs \<Longrightarrow> \<exists>ev \<in> set evs. source ev = p \<and> terminal ev"
  by (rule bexI [of _ "Error p"]) simp_all

lemma startOpenAI_state:
  "settled (startOpenAI start initialMerge)"
  "openaiListening (startOpenAI start initialMerge) = (start = Emitter)"
  "openaiDone (startOpenAI start initialMerge) = (start = Throws)"
  "\<not> deepseekListening (startOpenAI start initialMerge)"
  "\<not> deepseekDone (startOpenAI start initialMerge)"
  "openaiBuffer (startOpenAI start initialMerge) = []"
  "deepseekBuffer (startOpenAI start initialMerge) = []"
  by (cases start;
      simp add: startOpenAI_def initialMerge_def settled_def checkBothDone_def nonFinalWrites_def)+

lemma startDeepSeek_state:
  "openaiListening (startDeepSeek start st) = openaiListening st"
  "openaiDone (startDeepSeek start st) = openaiDone st"
  "openaiBuffer (startDeepSeek start st) = openaiBuffer st"
  "deepseekBuffer (startDeepSeek start st) = deepseekBuffer st"
  "\<not> deepseekListening st \<Longrightarrow> deepseekListening (startDeepSeek start st) = (start = Emitter)"
  "\<not> deepseekDone st \<Longrightarrow> deepseekDone (startDeepSeek start st) = (start = Throws)"
  by (cases start; simp add: startDeepSeek_def checkBothDone_fields)+

lemma startDeepSeek_settled:
  "settled st \<Longrightarrow> \<not> deepseekDone st \<Longrightarrow> settled (startDeepSeek start st)"
  by (cases start) (auto simp: startDeepSeek_def settled_def checkBothDone_def)

text \<open>
  C4, as amended. Let both provider streams fail: each either throws when it is started or
  raises an error, and neither raises anything after its end or error. Then the outgoing
  stream does not end with a failure and does carry the final event: it consists of the
  starting event, writes that are not final, one final event whose content is the final
  merge of the two accumulated buffers, and the end of the response.
\<close>

theorem merged_stream_both_fail:
  assumes "streamFails OpenAI openaiStart (early @ late)"
      and "streamFails DeepSeek deepseekStart late"
      and "orderly OpenAI (early @ late)"
      and "orderly DeepSeek late"
  shows "\<exists>pre. streamMergedResponses True openaiStart early deepseekStart late =
            Write startingEvent # pre @
              [Write (finalEvent (mergeResponses
                        (if openaiStart = Emitter then accumulated OpenAI (early @ late) else [])
                        (if deepseekStart = Emitter then accumulated DeepSeek late else []))),
               EndResponse]
          \<and> nonFinalWrites pre"
proof -
  let ?st0 = "startOpenAI openaiStart initialMerge"
  let ?st1 = "foldl onEvent ?st0 early"
  let ?st2 = "startDeepSeek deepseekStart ?st1"
  let ?st3 = "foldl onEvent ?st2 late"
  note ord = orderly_append [OF assms(3)]
  have aO0: "awaits OpenAI ?st0 early"
    using ord by (simp add: awaits_def startOpenAI_state)
  have aD0: "awaits DeepSeek ?st0 early"
    by (simp add: awaits_def startOpenAI_state)
  have s1: "settled ?st1"
    by (rule settled_run [OF startOpenAI_state(1) aO0 aD0])
  have lisD1: "\<not> deepseekListening ?st1"
    using run_listening [of DeepSeek ?st0 early] by (simp add: startOpenAI_state)
  have doneD1: "\<not> deepseekDone ?st1"
    using run_finished [of DeepSeek ?st0 early] by (simp add: startOpenAI_state)
  have lisO1: "openaiListening ?st1 = (openaiStart = Emitter)"
    using run_listening [of OpenAI ?st0 early] by (simp add: startOpenAI_state)
  have doneO1: "openaiDone ?st1 =
      (openaiStart = Throws \<or> (openaiStart = Emitter \<and> (\<exists>ev \<in> set early. source ev = OpenAI \<and> terminal ev)))"
    using run_finished [of OpenAI ?st0 early] by (simp add: startOpenAI_state)
  have s2: "settled ?st2"
    by (rule startDeepSeek_settled [OF s1 doneD1])
  have aO2: "awaits OpenAI ?st2 late"
    using ord lisO1 doneO1 by (cases openaiStart) (auto simp: awaits_def startDeepSeek_state)
  have aD2: "awaits DeepSeek ?st2 late"
    using assms(4) lisD1 doneD1
    by (cases deepseekStart) (simp_all add: awaits_def startDeepSeek_state)
  have s3: "settled ?st3"
    by (rule settled_run [OF s2 aO2 aD2])
  have doneO3: "openaiDone ?st3"
    using run_finished [of OpenAI ?st2 late] assms(1) error_terminal [of OpenAI "early @ late"]
          lisO1 doneO1
    by (cases openaiStart) (auto simp: startDeepSeek_state streamFails_def)
  have doneD3: "deepseekDone ?st3"
    using run_finished [of DeepSeek ?st2 late] assms(2) error_terminal [of DeepSeek late] lisD1 doneD1
    by (cases deepseekStart) (auto simp: startDeepSeek_state streamFails_def)
  have bufO: "openaiBuffer ?st3 = (if openaiStart = Emitter then accumulated OpenAI (early @ late) else [])"
    using run_buffers(1) [of ?st2 late] run_buffers(1) [of ?st0 early]
    by (simp add: startDeepSeek_state startOpenAI_state lisO1 accumulated_append)
  have bufD: "deepseekBuffer ?st3 = (if deepseekStart = Emitter then accumulated DeepSeek late else [])"
    using run_buffers(2) [of ?st2 late] run_buffers(2) [of ?st0 early] lisD1
    by (simp add: startDeepSeek_state startOpenAI_state)
  show ?thesis
    using s3 doneO3 doneD3 bufO bufD
    by (simp add: settled_def streamMergedResponses_def)
qed

theorem merged_stream_both_fail_witness:
  "streamFails OpenAI Emitter
     ([Data OpenAI (Some ''Hel'')] @
      [Data DeepSeek (Some ''Hi''), Data OpenAI (Some ''lo''), Error OpenAI,
       Data DeepSeek None, Error DeepSeek])
   \<and> streamFails DeepSeek Emitter
     [Data DeepSeek (Some ''Hi''), Data OpenAI (Some ''lo''), Error OpenAI,
      Data DeepSeek None, Error DeepSeek]
   \<and> orderly OpenAI
     ([Data OpenAI (Some ''Hel'')] @
      [Data DeepSeek (Some ''Hi''), Data OpenAI (Some ''lo''), Error OpenAI,
       Data DeepSeek None, Error DeepSeek])
   \<and> orderly DeepSeek
     [Data DeepSeek (Some ''Hi''), Data OpenAI (Some ''lo''), Error OpenAI,
      Data DeepSeek None, Error DeepSeek]
   \<and> (\<exists>pre. streamMergedResponses True Emitter [Data OpenAI (Some ''Hel'')] Emitter
               [Data DeepSeek (Some ''Hi''), Data OpenAI (Some ''lo''), Error OpenAI,
                Data DeepSeek None, Error DeepSeek] =
             Write startingEvent # pre @
               [Write (finalEvent (''Hello'' @ deepseekOmittedNote)), EndResponse]
           \<and> nonFinalWrites pre)"
proof -
  have f: "streamFails OpenAI Emitter
     ([Data OpenAI (Some ''Hel'')] @
      [Data DeepSeek (Some ''Hi''), Data OpenAI (Some ''lo''), Error OpenAI,
       Data DeepSeek None, Error DeepSeek])"
    "streamFails DeepSeek Emitter
     [Data DeepSeek (Some ''Hi''), Data OpenAI (Some ''lo''), Error OpenAI,
      Data DeepSeek None, Error DeepSeek]"
    by (simp_all add: streamFails_def)
  have o: "orderly OpenAI
     ([Data OpenAI (Some ''Hel'')] @
      [Data DeepSeek (Some ''Hi''), Data OpenAI (Some ''lo''), Error OpenAI,
       Data DeepSeek None, Error DeepSeek])"
    "orderly DeepSeek
     [Data DeepSeek (Some ''Hi''), Data OpenAI (Some ''lo''), Error OpenAI,
      Data DeepSeek None, Error DeepSeek]"
    by (simp_all add: quiet_def)
  have m: "mergeResponses ''Hello'' ''Hi'' = ''Hello'' @ deepseekOmittedNote"
    by (simp add: mergeResponses_def longer_by_half_nat)
  show ?thesis
    using merged_stream_both_fail [OF f o] f o m by simp
qed

lemma merged_stream_example:
  "streamMergedResponses True Emitter [Data OpenAI (Some ''Hel'')] Emitter
     [Data DeepSeek (Some ''Hi''), Data OpenAI (Some ''lo''), Error OpenAI,
      Data DeepSeek None, Error DeepSeek] =
   [Write startingEvent,
    Write \<lparr>sse_content = ''Hel'', sse_model = ''openai'', sse_buffer = Some ''Hel'', sse_final = False\<rparr>,
    Write \<lparr>sse_content = ''Hi'', sse_model = ''deepseek'', sse_buffer = Some ''Hi'', sse_final = False\<rparr>,
    Write \<lparr>sse_content = ''lo'', sse_model = ''openai'', sse_buffer = Some ''Hello'', sse_final = False\<rparr>,
    Write (finalEvent (''Hello'' @ deepseekOmittedNote)),
    EndResponse]"
  by (simp add: streamMergedResponses_def startOpenAI_def startDeepSeek_def initialMerge_def
        checkBothDone_def mergeResponses_def longer_by_half_nat Let_def)

theorem merged_stream_both_throw_counterexample:
  "streamFails OpenAI Throws [] \<and> streamFails DeepSeek Throws []
   \<and> streamMergedResponses True Throws [] Throws [] =
       [Write startingEvent,
        Write (finalEvent (mergeResponses [] [])),
        EndResponse]
   \<and> finalEvent (mergeResponses [] []) =
       \<lparr>sse_content = ''\<newline>\<newline>## Final Merged Response\<newline>No response from either model.'',
        sse_model = ''merged'', sse_buffer = None, sse_final = True\<rparr>"
  by (simp add: streamMergedResponses_def startOpenAI_def startDeepSeek_def initialMerge_def
        checkBothDone_def streamFails_def finalEvent_def mergeResponses_def noResponseText_def)

end
